theory Spec2Isabelle
  imports Main
begin

section \<open>Common values\<close>

text \<open>
  Errors are values. \<open>Errorf m\<close> is the error built by \<^verbatim>\<open>fmt.Errorf\<close> whose
  text is \<open>m\<close>: where the source passes a constant format and operands, \<open>m\<close> is
  the format with the operands written in by concatenation; where it passes a string of
  its own as the format, \<open>m\<close> is what \<^verbatim>\<open>fmt\<close> renders of that string. \<open>Panic m\<close>
  is a Go run-time panic (index out of range, nil dereference); \<open>ErrDevPodDeleted\<close>
  is the sentinel \<^verbatim>\<open>errors.ErrDevPodDeleted\<close>; \<open>ApiError m\<close> is an error
  handed back by a cluster API call or by the context, returned unwrapped.
\<close>

datatype error = Errorf string | Panic string | ErrDevPodDeleted | ApiError string

text \<open>
  A \<^verbatim>\<open>resource.Quantity\<close> is kept as its numeric value in thousandths of a unit
  (\<^verbatim>\<open>10m\<close> is 10, \<^verbatim>\<open>10Mi\<close> is 10 * 1024 * 1024 * 1000); the translation only
  copies and compares quantities.
\<close>

type_synonym quantity = int
type_synonym resourceList = "string \<rightharpoonup> quantity"

definition ResourceMemory :: string where "ResourceMemory = ''memory''"
definition ResourceCPU :: string where "ResourceCPU = ''cpu''"

text \<open>
  Modelled from the spec: the two GPU resource names \<^verbatim>\<open>model.ResourceAMDGPU\<close> and
  \<^verbatim>\<open>model.ResourceNVIDIAGPU\<close> are declared in package \<^verbatim>\<open>model\<close>; the spec
  speaks of "two GPU kinds". They are the extended resource names of the two vendors.
\<close>

definition ResourceAMDGPU :: string where "ResourceAMDGPU = ''amd.com/gpu''"
definition ResourceNVIDIAGPU :: string where "ResourceNVIDIAGPU = ''nvidia.com/gpu''"

section \<open>Containers and translation rules\<close>

record capabilities =
  cap_Add :: "string list"
  cap_Drop :: "string list"

text \<open>The container-level \<^verbatim>\<open>apiv1.SecurityContext\<close>; a nil pointer is \<open>None\<close>.\<close>

record securityContext =
  sc_Capabilities :: "capabilities option"
  sc_Privileged :: "bool option"
  sc_SELinuxOptions :: "string option"
  sc_WindowsOptions :: "string option"
  sc_RunAsUser :: "int option"
  sc_RunAsGroup :: "int option"
  sc_RunAsNonRoot :: "bool option"
  sc_ReadOnlyRootFilesystem :: "bool option"
  sc_AllowPrivilegeEscalation :: "bool option"
  sc_ProcMount :: "string option"
  sc_SeccompProfile :: "string option"

text \<open>The rule's \<^verbatim>\<open>model.SecurityContext\<close>.\<close>

record ruleSecurityContext =
  rsc_RunAsUser :: "int option"
  rsc_RunAsGroup :: "int option"
  rsc_FSGroup :: "int option"
  rsc_Capabilities :: "capabilities option"

record resourceRequirements =
  res_Limits :: resourceList
  res_Requests :: resourceList

record envVar =
  env_Name :: string
  env_Value :: string
  env_ValueFrom :: "string option"

text \<open>A \<^verbatim>\<open>model.EnvVar\<close> of a rule has a name and a value only.\<close>

record ruleEnvVar =
  renv_Name :: string
  renv_Value :: string

record volumeMount =
  vm_Name :: string
  vm_ReadOnly :: bool
  vm_MountPath :: string
  vm_SubPath :: string

text \<open>
  A volume of a rule (\<^verbatim>\<open>model.VolumeMount\<close>). Modelled from the spec: the method
  \<^verbatim>\<open>IsSyncthing\<close> is declared in package \<^verbatim>\<open>model\<close>; its result is the field
  \<open>rv_IsSyncthing\<close>.
\<close>

record ruleVolume =
  rv_Name :: string
  rv_MountPath :: string
  rv_SubPath :: string
  rv_IsSyncthing :: bool

text \<open>
  A secret of a rule (\<^verbatim>\<open>model.Secret\<close>). Modelled from the spec: the methods
  \<^verbatim>\<open>GetKeyName\<close> and \<^verbatim>\<open>GetFileName\<close> are declared in package \<^verbatim>\<open>model\<close>;
  their results are the fields \<open>sec_KeyName\<close> and \<open>sec_FileName\<close>.
\<close>

record secret =
  sec_KeyName :: string
  sec_FileName :: string
  sec_Mode :: int

record probes =
  pr_Liveness :: bool
  pr_Readiness :: bool
  pr_Startup :: bool

record initContainer =
  ic_Image :: string
  ic_Resources :: resourceRequirements

record container =
  c_Name :: string
  c_Image :: string
  c_ImagePullPolicy :: string
  c_WorkingDir :: string
  c_Command :: "string list"
  c_Args :: "string list"
  c_Ports :: "nat list"
  c_LivenessProbe :: "string option"
  c_ReadinessProbe :: "string option"
  c_StartupProbe :: "string option"
  c_Resources :: resourceRequirements
  c_Env :: "envVar list"
  c_VolumeMounts :: "volumeMount list"
  c_SecurityContext :: "securityContext option"

text \<open>
  A \<^verbatim>\<open>model.TranslationRule\<close>, with the fields the translation reads.
  Modelled from the spec: the method \<^verbatim>\<open>IsMainDevContainer\<close> is declared in
  package \<^verbatim>\<open>model\<close>; the spec gives each rule a boolean "is the main session
  container", the field \<open>r_IsMainDevContainer\<close>.
\<close>

record translationRule =
  r_Marker :: string
  r_Container :: string
  r_Image :: string
  r_ImagePullPolicy :: string
  r_Environment :: "ruleEnvVar list"
  r_Secrets :: "secret list"
  r_Command :: "string list"
  r_Args :: "string list"
  r_WorkDir :: string
  r_Probes :: "probes option"
  r_PersistentVolume :: bool
  r_Volumes :: "ruleVolume list"
  r_SecurityContext :: "ruleSecurityContext option"
  r_ServiceAccount :: string
  r_Resources :: resourceRequirements
  r_InitContainer :: initContainer
  r_IsMainDevContainer :: bool

subsection \<open>Security context\<close>

definition emptySecurityContext :: securityContext where
  "emptySecurityContext =
     \<lparr>sc_Capabilities = None, sc_Privileged = None, sc_SELinuxOptions = None,
      sc_WindowsOptions = None, sc_RunAsUser = None, sc_RunAsGroup = None,
      sc_RunAsNonRoot = None, sc_ReadOnlyRootFilesystem = None,
      sc_AllowPrivilegeEscalation = None, sc_ProcMount = None, sc_SeccompProfile = None\<rparr>"

definition emptyCapabilities :: capabilities where
  "emptyCapabilities = \<lparr>cap_Add = [], cap_Drop = []\<rparr>"

text \<open>The two blocks that copy an id and switch the non-root flag off when the id is zero.\<close>

definition setRunAsUser :: "int option \<Rightarrow> securityContext \<Rightarrow> securityContext" where
  "setRunAsUser u sc =
     (case u of
        None \<Rightarrow> sc
      | Some uid \<Rightarrow>
          (let sc1 = sc\<lparr>sc_RunAsUser := Some uid\<rparr>
           in if uid = 0 then sc1\<lparr>sc_RunAsNonRoot := Some False\<rparr> else sc1))"

definition setRunAsGroup :: "int option \<Rightarrow> securityContext \<Rightarrow> securityContext" where
  "setRunAsGroup g sc =
     (case g of
        None \<Rightarrow> sc
      | Some gid \<Rightarrow>
          (let sc1 = sc\<lparr>sc_RunAsGroup := Some gid\<rparr>
           in if gid = 0 then sc1\<lparr>sc_RunAsNonRoot := Some False\<rparr> else sc1))"

definition mergeCapabilities :: "capabilities option \<Rightarrow> securityContext \<Rightarrow> securityContext" where
  "mergeCapabilities caps sc =
     (case caps of
        None \<Rightarrow> sc
      | Some rc \<Rightarrow>
          (let cur = (case sc_Capabilities sc of None \<Rightarrow> emptyCapabilities | Some k \<Rightarrow> k)
           in sc\<lparr>sc_ReadOnlyRootFilesystem := None,
                 sc_Capabilities :=
                   Some \<lparr>cap_Add = cap_Add cur @ cap_Add rc,
                         cap_Drop = cap_Drop cur @ cap_Drop rc\<rparr>\<rparr>))"

definition TranslateContainerSecurityContext ::
    "container \<Rightarrow> ruleSecurityContext option \<Rightarrow> container" where
  "TranslateContainerSecurityContext c s =
     (case s of
        None \<Rightarrow> c
      | Some rs \<Rightarrow>
          (let sc0 = (case c_SecurityContext c of None \<Rightarrow> emptySecurityContext | Some x \<Rightarrow> x);
               sc1 = setRunAsUser (rsc_RunAsUser rs) sc0;
               sc2 = setRunAsGroup (rsc_RunAsGroup rs) sc1;
               sc3 = mergeCapabilities (rsc_Capabilities rs) sc2
           in c\<lparr>c_SecurityContext := Some sc3\<rparr>))"

subsection \<open>Probes, resources, environment, volume mounts\<close>

definition TranslateProbes :: "container \<Rightarrow> probes \<Rightarrow> container" where
  "TranslateProbes c h =
     (let c1 = (if \<not> pr_Liveness h then c\<lparr>c_LivenessProbe := None\<rparr> else c);
          c2 = (if \<not> pr_Readiness h then c1\<lparr>c_ReadinessProbe := None\<rparr> else c1)
      in if \<not> pr_Startup h then c2\<lparr>c_StartupProbe := None\<rparr> else c2)"

text \<open>
  One block \<^verbatim>\<open>if v, ok := src[k]; ok { dst[k] = v }\<close> of \<^verbatim>\<open>TranslateResources\<close>.
\<close>

definition copyResource :: "string \<Rightarrow> resourceList \<Rightarrow> resourceList \<Rightarrow> resourceList" where
  "copyResource k src dst = (case src k of None \<Rightarrow> dst | Some v \<Rightarrow> dst(k \<mapsto> v))"

definition mergeResourceList :: "resourceList \<Rightarrow> resourceList \<Rightarrow> resourceList" where
  "mergeResourceList src dst =
     copyResource ResourceNVIDIAGPU src
       (copyResource ResourceAMDGPU src
         (copyResource ResourceCPU src
           (copyResource ResourceMemory src dst)))"

definition TranslateResources :: "container \<Rightarrow> resourceRequirements \<Rightarrow> container" where
  "TranslateResources c r =
     c\<lparr>c_Resources :=
         \<lparr>res_Limits = mergeResourceList (res_Limits r) (res_Limits (c_Resources c)),
          res_Requests = mergeResourceList (res_Requests r) (res_Requests (c_Resources c))\<rparr>\<rparr>"

text \<open>
  \<^verbatim>\<open>TranslateEnvVars\<close> runs three loops. The first fills the map
  \<^verbatim>\<open>unusedDevEnvVar\<close> from the rule; the second walks the container's variables,
  replaces the one whose name is in the map and deletes that name from the map; the third
  appends the rule's variables whose name is still in the map.
\<close>

fun unusedDevEnvVar :: "ruleEnvVar list \<Rightarrow> (string \<rightharpoonup> string) \<Rightarrow> (string \<rightharpoonup> string)" where
  "unusedDevEnvVar [] m = m"
| "unusedDevEnvVar (v # vs) m = unusedDevEnvVar vs (m(renv_Name v \<mapsto> renv_Value v))"

fun replaceEnvVars ::
    "envVar list \<Rightarrow> (string \<rightharpoonup> string) \<Rightarrow> envVar list \<times> (string \<rightharpoonup> string)" where
  "replaceEnvVars [] m = ([], m)"
| "replaceEnvVars (e # es) m =
     (case m (env_Name e) of
        Some v \<Rightarrow>
          (let (es', m') = replaceEnvVars es (m(env_Name e := None))
           in (\<lparr>env_Name = env_Name e, env_Value = v, env_ValueFrom = None\<rparr> # es', m'))
      | None \<Rightarrow> (let (es', m') = replaceEnvVars es m in (e # es', m')))"

fun appendEnvVars :: "ruleEnvVar list \<Rightarrow> (string \<rightharpoonup> string) \<Rightarrow> envVar list" where
  "appendEnvVars [] m = []"
| "appendEnvVars (v # vs) m =
     (case m (renv_Name v) of
        Some x \<Rightarrow>
          \<lparr>env_Name = renv_Name v, env_Value = x, env_ValueFrom = None\<rparr> # appendEnvVars vs m
      | None \<Rightarrow> appendEnvVars vs m)"

definition mergeEnv :: "envVar list \<Rightarrow> ruleEnvVar list \<Rightarrow> envVar list" where
  "mergeEnv base renv =
     (let (es, m) = replaceEnvVars base (unusedDevEnvVar renv Map.empty)
      in es @ appendEnvVars renv m)"

definition TranslateEnvVars :: "container \<Rightarrow> translationRule \<Rightarrow> container" where
  "TranslateEnvVars c rule = c\<lparr>c_Env := mergeEnv (c_Env c) (r_Environment rule)\<rparr>"

definition OktetoBinName :: string where "OktetoBinName = ''okteto-bin''"
definition oktetoSyncSecretVolume :: string where "oktetoSyncSecretVolume = ''okteto-sync-secret''"
definition oktetoDevSecretVolume :: string where "oktetoDevSecretVolume = ''okteto-dev-secret''"

definition ruleVolumeMount :: "ruleVolume \<Rightarrow> volumeMount" where
  "ruleVolumeMount v =
     \<lparr>vm_Name = rv_Name v, vm_ReadOnly = False, vm_MountPath = rv_MountPath v,
      vm_SubPath = rv_SubPath v\<rparr>"

definition TranslateVolumeMounts :: "container \<Rightarrow> translationRule \<Rightarrow> container" where
  "TranslateVolumeMounts c rule =
     (let vms = c_VolumeMounts c @ map ruleVolumeMount (r_Volumes rule)
      in if r_Marker rule = [] then c\<lparr>c_VolumeMounts := vms\<rparr>
         else
           (let vms1 = vms @ [\<lparr>vm_Name = oktetoSyncSecretVolume, vm_ReadOnly = False,
                                vm_MountPath = ''/var/syncthing/secret/'', vm_SubPath = []\<rparr>]
            in if r_Secrets rule \<noteq> []
               then c\<lparr>c_VolumeMounts :=
                        vms1 @ [\<lparr>vm_Name = oktetoDevSecretVolume, vm_ReadOnly = False,
                                  vm_MountPath = ''/var/okteto/secret/'', vm_SubPath = []\<rparr>]\<rparr>
               else c\<lparr>c_VolumeMounts := vms1\<rparr>))"

definition TranslateOktetoBinVolumeMounts :: "container \<Rightarrow> container" where
  "TranslateOktetoBinVolumeMounts c =
     (if OktetoBinName \<in> set (map vm_Name (c_VolumeMounts c)) then c
      else c\<lparr>c_VolumeMounts :=
               c_VolumeMounts c @ [\<lparr>vm_Name = OktetoBinName, vm_ReadOnly = False,
                                    vm_MountPath = ''/var/okteto/bin'', vm_SubPath = []\<rparr>]\<rparr>)"

subsection \<open>The dev container and the init container of a rule\<close>

text \<open>
  \<^verbatim>\<open>TranslateDevContainer\<close> writes to the container and to the rule: a rule with
  no image takes the container's. \<^verbatim>\<open>*rule.Probes\<close> dereferences a pointer, so a
  rule without probes panics.
\<close>

definition TranslateDevContainer ::
    "container \<Rightarrow> translationRule \<Rightarrow> error + (container \<times> translationRule)" where
  "TranslateDevContainer c rule =
     (let rule1 = (if r_Image rule = [] then rule\<lparr>r_Image := c_Image c\<rparr> else rule);
          c1 = c\<lparr>c_Image := r_Image rule1, c_ImagePullPolicy := r_ImagePullPolicy rule1\<rparr>;
          c2 = (if r_WorkDir rule1 \<noteq> [] then c1\<lparr>c_WorkingDir := r_WorkDir rule1\<rparr> else c1);
          c3 = (if r_Command rule1 \<noteq> []
                then c2\<lparr>c_Command := r_Command rule1, c_Args := r_Args rule1\<rparr> else c2)
      in case r_Probes rule1 of
           None \<Rightarrow> Inl (Panic ''invalid memory address or nil pointer dereference'')
         | Some h \<Rightarrow>
             Inr (TranslateContainerSecurityContext
                    (TranslateVolumeMounts
                      (TranslateEnvVars
                        (TranslateResources (TranslateProbes c3 h) (r_Resources rule1))
                        rule1)
                      rule1)
                    (r_SecurityContext rule1),
                  rule1))"

definition OktetoUpInitContainerRequestsCPU :: quantity where
  "OktetoUpInitContainerRequestsCPU = 10"
definition OktetoUpInitContainerRequestsMemory :: quantity where
  "OktetoUpInitContainerRequestsMemory = 10 * 1024 * 1024 * 1000"
definition OktetoUpInitContainerLimitsCPU :: quantity where
  "OktetoUpInitContainerLimitsCPU = 30"
definition OktetoUpInitContainerLimitsMemory :: quantity where
  "OktetoUpInitContainerLimitsMemory = 30 * 1024 * 1024 * 1000"

definition setDefaultResourceValueIfNotPresent ::
    "resourceList \<Rightarrow> string \<Rightarrow> quantity \<Rightarrow> resourceList" where
  "setDefaultResourceValueIfNotPresent resourceList resourceName v =
     (case resourceList resourceName of
        None \<Rightarrow> resourceList(resourceName \<mapsto> v)
      | Some x \<Rightarrow> resourceList)"

definition TranslateInitContainer :: "initContainer \<Rightarrow> initContainer" where
  "TranslateInitContainer ic =
     ic\<lparr>ic_Resources :=
          \<lparr>res_Limits =
             setDefaultResourceValueIfNotPresent
               (setDefaultResourceValueIfNotPresent (res_Limits (ic_Resources ic))
                  ResourceMemory OktetoUpInitContainerLimitsMemory)
               ResourceCPU OktetoUpInitContainerLimitsCPU,
           res_Requests =
             setDefaultResourceValueIfNotPresent
               (setDefaultResourceValueIfNotPresent (res_Requests (ic_Resources ic))
                  ResourceMemory OktetoUpInitContainerRequestsMemory)
               ResourceCPU OktetoUpInitContainerRequestsCPU\<rparr>\<rparr>"

section \<open>Pods and deployments\<close>

record keyToPath =
  ktp_Key :: string
  ktp_Path :: string
  ktp_Mode :: "int option"

record secretVolumeSource =
  svs_SecretName :: string
  svs_Items :: "keyToPath list"

record persistentVolumeClaimVolumeSource =
  pvcs_ClaimName :: string
  pvcs_ReadOnly :: bool

text \<open>
  A \<^verbatim>\<open>VolumeSource\<close> is a struct of optional pointers; the three the translation
  sets are fields, every other kind of source is \<open>vs_Other\<close>. The empty-dir source is
  kept as its medium.
\<close>

record volumeSource =
  vs_EmptyDir :: "string option"
  vs_PersistentVolumeClaim :: "persistentVolumeClaimVolumeSource option"
  vs_Secret :: "secretVolumeSource option"
  vs_Other :: "string option"

record volume =
  v_Name :: string
  v_VolumeSource :: volumeSource

record podAffinityTerm =
  pat_MatchLabels :: "(string \<rightharpoonup> string) option"
  pat_Namespaces :: "string list"
  pat_TopologyKey :: string

record podAffinity =
  pa_Required :: "podAffinityTerm list"
  pa_Preferred :: "string list"

record affinity =
  af_NodeAffinity :: "string option"
  af_PodAffinity :: "podAffinity option"
  af_PodAntiAffinity :: "string option"

record podSecurityContext =
  psc_RunAsUser :: "int option"
  psc_RunAsGroup :: "int option"
  psc_RunAsNonRoot :: "bool option"
  psc_SupplementalGroups :: "int list"
  psc_FSGroup :: "int option"

record toleration =
  tol_Key :: string
  tol_Operator :: string
  tol_Value :: string
  tol_Effect :: string
  tol_TolerationSeconds :: "int option"

record podSpec =
  ps_Volumes :: "volume list"
  ps_InitContainers :: "container list"
  ps_Containers :: "container list"
  ps_TerminationGracePeriodSeconds :: "int option"
  ps_ServiceAccountName :: string
  ps_SecurityContext :: "podSecurityContext option"
  ps_Affinity :: "affinity option"
  ps_Tolerations :: "toleration list"

record deploymentStatus =
  st_ObservedGeneration :: int
  st_Replicas :: int
  st_UpdatedReplicas :: int
  st_ReadyReplicas :: int
  st_AvailableReplicas :: int
  st_UnavailableReplicas :: int

text \<open>
  The object metadata, the pod template, the deployment spec and the deployment. They are
  datatypes over the type \<open>'v\<close> of annotation values, because the reversibility
  annotation of a deployment holds a deployment.
\<close>

datatype 'v objectMeta =
  ObjectMeta (om_Name: string) (om_Labels: "string \<rightharpoonup> string")
    (om_Annotations: "string \<rightharpoonup> 'v")

datatype 'v podTemplateSpec =
  PodTemplateSpec (pt_ObjectMeta: "'v objectMeta") (pt_Spec: podSpec)

datatype 'v deploymentSpec =
  DeploymentSpec (ds_Replicas: "int option") (ds_Template: "'v podTemplateSpec")

datatype 'v deploymentOf =
  Deployment (d_ObjectMeta: "'v objectMeta") (d_Spec: "'v deploymentSpec")
    (d_Status: deploymentStatus)

text \<open>
  The value of an annotation is a string. \<open>Json d\<close> is a string that
  \<^verbatim>\<open>json.Unmarshal\<close> decodes to the deployment \<open>d\<close>, and \<^verbatim>\<open>json.Marshal\<close> of
  \<open>d\<close> is such a string: encoding then decoding a deployment is taken to give the
  deployment back. \<open>Str s\<close> is any other string, the empty one included; decoding a
  non-empty one fails.
\<close>

datatype annotationValue = Str string | Json "annotationValue deploymentOf"

type_synonym deployment = "annotationValue deploymentOf"

subsection \<open>Setters of the metadata\<close>

definition set_om_Labels :: "(string \<rightharpoonup> string) \<Rightarrow> 'v objectMeta \<Rightarrow> 'v objectMeta" where
  "set_om_Labels l o' = ObjectMeta (om_Name o') l (om_Annotations o')"

definition set_om_Annotations :: "(string \<rightharpoonup> 'v) \<Rightarrow> 'v objectMeta \<Rightarrow> 'v objectMeta" where
  "set_om_Annotations a o' = ObjectMeta (om_Name o') (om_Labels o') a"

definition set_d_ObjectMeta :: "'v objectMeta \<Rightarrow> 'v deploymentOf \<Rightarrow> 'v deploymentOf" where
  "set_d_ObjectMeta m d = Deployment m (d_Spec d) (d_Status d)"

definition set_d_Status :: "deploymentStatus \<Rightarrow> 'v deploymentOf \<Rightarrow> 'v deploymentOf" where
  "set_d_Status st d = Deployment (d_ObjectMeta d) (d_Spec d) st"

definition set_d_Replicas :: "int option \<Rightarrow> 'v deploymentOf \<Rightarrow> 'v deploymentOf" where
  "set_d_Replicas n d =
     Deployment (d_ObjectMeta d) (DeploymentSpec n (ds_Template (d_Spec d))) (d_Status d)"

definition templateMeta :: "'v deploymentOf \<Rightarrow> 'v objectMeta" where
  "templateMeta d = pt_ObjectMeta (ds_Template (d_Spec d))"

definition set_templateMeta :: "'v objectMeta \<Rightarrow> 'v deploymentOf \<Rightarrow> 'v deploymentOf" where
  "set_templateMeta m d =
     Deployment (d_ObjectMeta d)
       (DeploymentSpec (ds_Replicas (d_Spec d))
          (PodTemplateSpec m (pt_Spec (ds_Template (d_Spec d)))))
       (d_Status d)"

definition templateSpec :: "'v deploymentOf \<Rightarrow> podSpec" where
  "templateSpec d = pt_Spec (ds_Template (d_Spec d))"

definition set_templateSpec :: "podSpec \<Rightarrow> 'v deploymentOf \<Rightarrow> 'v deploymentOf" where
  "set_templateSpec sp d =
     Deployment (d_ObjectMeta d)
       (DeploymentSpec (ds_Replicas (d_Spec d))
          (PodTemplateSpec (pt_ObjectMeta (ds_Template (d_Spec d))) sp))
       (d_Status d)"

text \<open>
  Modelled from the spec: \<^verbatim>\<open>getAnnotation\<close>, \<^verbatim>\<open>setAnnotation\<close> and
  \<^verbatim>\<open>setLabel\<close> are helpers of package \<^verbatim>\<open>deployments\<close> declared in another
  file. They read a key of the annotation map (the empty string when it is absent) and
  write one key of the annotation or label map.
\<close>

definition getAnnotation :: "annotationValue objectMeta \<Rightarrow> string \<Rightarrow> annotationValue" where
  "getAnnotation o' key = (case om_Annotations o' key of None \<Rightarrow> Str [] | Some v \<Rightarrow> v)"

definition setAnnotation :: "'v objectMeta \<Rightarrow> string \<Rightarrow> 'v \<Rightarrow> 'v objectMeta" where
  "setAnnotation o' key v = set_om_Annotations ((om_Annotations o')(key \<mapsto> v)) o'"

definition setLabel :: "'v objectMeta \<Rightarrow> string \<Rightarrow> string \<Rightarrow> 'v objectMeta" where
  "setLabel o' key v = set_om_Labels ((om_Labels o')(key \<mapsto> v)) o'"

text \<open>
  \<^verbatim>\<open>TranslateDevAnnotations\<close> sets every key of the caller's map, in the map's
  iteration order; the keys of a map are distinct, so the outcome is the map overridden
  by the caller's.
\<close>

definition TranslateDevAnnotations :: "'v objectMeta \<Rightarrow> (string \<rightharpoonup> 'v) \<Rightarrow> 'v objectMeta" where
  "TranslateDevAnnotations o' annotations =
     set_om_Annotations (om_Annotations o' ++ annotations) o'"

subsection \<open>Pod-level translations\<close>

definition TranslateDevTolerations :: "podSpec \<Rightarrow> toleration list \<Rightarrow> podSpec" where
  "TranslateDevTolerations spec tolerations =
     spec\<lparr>ps_Tolerations := ps_Tolerations spec @ tolerations\<rparr>"

text \<open>
  Modelled from the spec: the label keys and the version of package \<^verbatim>\<open>labels\<close>
  (\<^verbatim>\<open>okLabels.DevLabel\<close>, \<^verbatim>\<open>InteractiveDevLabel\<close>, \<^verbatim>\<open>DetachedDevLabel\<close>,
  \<^verbatim>\<open>Version\<close>) are declared outside the translated files; the spec speaks of a
  "dev-mode" label and of labels that carry the session name.
\<close>

definition DevLabel :: string where "DevLabel = ''dev.okteto.com''"
definition InteractiveDevLabel :: string where
  "InteractiveDevLabel = ''interactive.dev.okteto.com''"
definition DetachedDevLabel :: string where "DetachedDevLabel = ''detached.dev.okteto.com''"
definition Version :: string where "Version = ''1.0''"

definition oktetoDeploymentAnnotation :: string where
  "oktetoDeploymentAnnotation = ''dev.okteto.com/deployment''"
definition oktetoVersionAnnotation :: string where
  "oktetoVersionAnnotation = ''dev.okteto.com/version''"
definition revisionAnnotation :: string where
  "revisionAnnotation = ''deployment.kubernetes.io/revision''"

definition emptyAffinity :: affinity where
  "emptyAffinity = \<lparr>af_NodeAffinity = None, af_PodAffinity = None, af_PodAntiAffinity = None\<rparr>"

definition TranslatePodAffinity :: "podSpec \<Rightarrow> string \<Rightarrow> podSpec" where
  "TranslatePodAffinity spec name =
     (let a = (case ps_Affinity spec of None \<Rightarrow> emptyAffinity | Some x \<Rightarrow> x);
          pa = (case af_PodAffinity a of
                  None \<Rightarrow> \<lparr>pa_Required = [], pa_Preferred = []\<rparr> | Some x \<Rightarrow> x);
          term = \<lparr>pat_MatchLabels = Some [InteractiveDevLabel \<mapsto> name],
                  pat_Namespaces = [], pat_TopologyKey = ''kubernetes.io/hostname''\<rparr>
      in spec\<lparr>ps_Affinity :=
                Some (a\<lparr>af_PodAffinity := Some (pa\<lparr>pa_Required := pa_Required pa @ [term]\<rparr>)\<rparr>)\<rparr>)"

definition emptyVolumeSource :: volumeSource where
  "emptyVolumeSource =
     \<lparr>vs_EmptyDir = None, vs_PersistentVolumeClaim = None, vs_Secret = None, vs_Other = None\<rparr>"

definition hasVolume :: "podSpec \<Rightarrow> string \<Rightarrow> bool" where
  "hasVolume spec name = (name \<in> set (map v_Name (ps_Volumes spec)))"

definition oktetoVolume :: "translationRule \<Rightarrow> ruleVolume \<Rightarrow> volume" where
  "oktetoVolume rule rV =
     \<lparr>v_Name = rv_Name rV,
      v_VolumeSource =
        (if \<not> r_PersistentVolume rule \<and> rv_IsSyncthing rV
         then emptyVolumeSource\<lparr>vs_EmptyDir := Some []\<rparr>
         else emptyVolumeSource\<lparr>vs_PersistentVolumeClaim :=
                Some \<lparr>pvcs_ClaimName = rv_Name rV, pvcs_ReadOnly = False\<rparr>\<rparr>)\<rparr>"

fun addOktetoVolumes :: "translationRule \<Rightarrow> ruleVolume list \<Rightarrow> podSpec \<Rightarrow> podSpec" where
  "addOktetoVolumes rule [] spec = spec"
| "addOktetoVolumes rule (rV # rVs) spec =
     (if hasVolume spec (rv_Name rV) then addOktetoVolumes rule rVs spec
      else addOktetoVolumes rule rVs
             (spec\<lparr>ps_Volumes := ps_Volumes spec @ [oktetoVolume rule rV]\<rparr>))"

definition TranslateOktetoVolumes :: "podSpec \<Rightarrow> translationRule \<Rightarrow> podSpec" where
  "TranslateOktetoVolumes spec rule = addOktetoVolumes rule (r_Volumes rule) spec"

definition TranslateOktetoBinVolume :: "podSpec \<Rightarrow> podSpec" where
  "TranslateOktetoBinVolume spec =
     (if hasVolume spec OktetoBinName then spec
      else spec\<lparr>ps_Volumes := ps_Volumes spec @
                  [\<lparr>v_Name = OktetoBinName,
                    v_VolumeSource = emptyVolumeSource\<lparr>vs_EmptyDir := Some []\<rparr>\<rparr>]\<rparr>)"

definition emptyPodSecurityContext :: podSecurityContext where
  "emptyPodSecurityContext =
     \<lparr>psc_RunAsUser = None, psc_RunAsGroup = None, psc_RunAsNonRoot = None,
      psc_SupplementalGroups = [], psc_FSGroup = None\<rparr>"

definition TranslatePodSecurityContext ::
    "podSpec \<Rightarrow> ruleSecurityContext option \<Rightarrow> podSpec" where
  "TranslatePodSecurityContext spec s =
     (case s of
        None \<Rightarrow> spec
      | Some rs \<Rightarrow>
          (let psc = (case ps_SecurityContext spec of
                        None \<Rightarrow> emptyPodSecurityContext | Some x \<Rightarrow> x)
           in spec\<lparr>ps_SecurityContext :=
                Some (case rsc_FSGroup rs of
                        None \<Rightarrow> psc | Some g \<Rightarrow> psc\<lparr>psc_FSGroup := Some g\<rparr>)\<rparr>))"

definition TranslatePodServiceAccount :: "podSpec \<Rightarrow> string \<Rightarrow> podSpec" where
  "TranslatePodServiceAccount spec sa =
     (if sa \<noteq> [] then spec\<lparr>ps_ServiceAccountName := sa\<rparr> else spec)"

definition emptyResources :: resourceRequirements where
  "emptyResources = \<lparr>res_Limits = Map.empty, res_Requests = Map.empty\<rparr>"

text \<open>Reading a key that a Go map lacks gives the zero value.\<close>

definition quantityOf :: "resourceList \<Rightarrow> string \<Rightarrow> quantity" where
  "quantityOf m k = (case m k of None \<Rightarrow> 0 | Some q \<Rightarrow> q)"

definition PullIfNotPresent :: string where "PullIfNotPresent = ''IfNotPresent''"

definition oktetoInitBinContainer :: "initContainer \<Rightarrow> container" where
  "oktetoInitBinContainer ic =
     \<lparr>c_Name = OktetoBinName, c_Image = ic_Image ic, c_ImagePullPolicy = PullIfNotPresent,
      c_WorkingDir = [], c_Command = [''sh'', ''-c'', ''cp /usr/local/bin/* /okteto/bin''],
      c_Args = [], c_Ports = [], c_LivenessProbe = None, c_ReadinessProbe = None,
      c_StartupProbe = None,
      c_Resources =
        \<lparr>res_Limits =
           [ResourceCPU \<mapsto> quantityOf (res_Limits (ic_Resources ic)) ResourceCPU,
            ResourceMemory \<mapsto> quantityOf (res_Limits (ic_Resources ic)) ResourceMemory],
         res_Requests =
           [ResourceCPU \<mapsto> quantityOf (res_Requests (ic_Resources ic)) ResourceCPU,
            ResourceMemory \<mapsto> quantityOf (res_Requests (ic_Resources ic)) ResourceMemory]\<rparr>,
      c_Env = [],
      c_VolumeMounts = [\<lparr>vm_Name = OktetoBinName, vm_ReadOnly = False,
                         vm_MountPath = ''/okteto/bin'', vm_SubPath = []\<rparr>],
      c_SecurityContext = None\<rparr>"

definition TranslateOktetoInitBinContainer :: "initContainer \<Rightarrow> podSpec \<Rightarrow> podSpec" where
  "TranslateOktetoInitBinContainer ic spec =
     spec\<lparr>ps_InitContainers := ps_InitContainers spec @ [oktetoInitBinContainer ic]\<rparr>"

text \<open>\<^verbatim>\<open>fmt.Sprintf(oktetoSecretTemplate, name)\<close> with the template \<^verbatim>\<open>okteto-%s\<close>.\<close>

definition oktetoSecretName :: "string \<Rightarrow> string" where
  "oktetoSecretName name = ''okteto-'' @ name"

definition syncSecretItem :: "string \<Rightarrow> keyToPath" where
  "syncSecretItem f = \<lparr>ktp_Key = f, ktp_Path = f, ktp_Mode = Some 292\<rparr>"

definition TranslateOktetoSyncSecret :: "podSpec \<Rightarrow> string \<Rightarrow> podSpec" where
  "TranslateOktetoSyncSecret spec name =
     (if hasVolume spec oktetoSyncSecretVolume then spec
      else spec\<lparr>ps_Volumes := ps_Volumes spec @
             [\<lparr>v_Name = oktetoSyncSecretVolume,
               v_VolumeSource = emptyVolumeSource\<lparr>vs_Secret :=
                 Some \<lparr>svs_SecretName = oktetoSecretName name,
                       svs_Items = map syncSecretItem
                         [''config.xml'', ''cert.pem'', ''key.pem'']\<rparr>\<rparr>\<rparr>]\<rparr>)"

definition devSecretItem :: "secret \<Rightarrow> keyToPath" where
  "devSecretItem s =
     \<lparr>ktp_Key = sec_KeyName s, ktp_Path = sec_FileName s, ktp_Mode = Some (sec_Mode s)\<rparr>"

definition TranslateOktetoDevSecret :: "podSpec \<Rightarrow> string \<Rightarrow> secret list \<Rightarrow> podSpec" where
  "TranslateOktetoDevSecret spec secretName secrets =
     (if secrets = [] then spec
      else if hasVolume spec oktetoDevSecretVolume then spec
      else spec\<lparr>ps_Volumes := ps_Volumes spec @
             [\<lparr>v_Name = oktetoDevSecretVolume,
               v_VolumeSource = emptyVolumeSource\<lparr>vs_Secret :=
                 Some \<lparr>svs_SecretName = oktetoSecretName secretName,
                       svs_Items = map devSecretItem secrets\<rparr>\<rparr>\<rparr>]\<rparr>)"

section \<open>The translation of a deployment\<close>

text \<open>
  A \<^verbatim>\<open>model.Translation\<close>. The caller's annotations are strings, so they have
  the type of annotation values.
\<close>

record translation =
  t_Interactive :: bool
  t_Name :: string
  t_Deployment :: deployment
  t_Annotations :: "string \<rightharpoonup> annotationValue"
  t_Tolerations :: "toleration list"
  t_Rules :: "translationRule list"

fun findContainer :: "string \<Rightarrow> container list \<Rightarrow> nat option" where
  "findContainer name [] = None"
| "findContainer name (c # cs) =
     (if c_Name c = name then Some 0 else map_option Suc (findContainer name cs))"

text \<open>
  \<^verbatim>\<open>GetDevContainer\<close> returns a pointer into the slice of containers, here the
  index; \<open>None\<close> is the nil pointer. With the empty name it takes the address of
  \<^verbatim>\<open>spec.Containers[0]\<close>, which panics when there is no container.
\<close>

definition GetDevContainer :: "podSpec \<Rightarrow> string \<Rightarrow> error + nat option" where
  "GetDevContainer spec name =
     (if name = [] then
        (if ps_Containers spec = [] then Inl (Panic ''index out of range [0] with length 0'')
         else Inr (Some 0))
      else Inr (findContainer name (ps_Containers spec)))"

definition quoted :: "string \<Rightarrow> string" where
  "quoted s = [CHR 0x27] @ s @ [CHR 0x27]"

definition containerNotFound :: "string \<Rightarrow> string \<Rightarrow> error" where
  "containerNotFound cname dname =
     Errorf (''Container '' @ quoted cname @ '' not found in deployment '' @ quoted dname)"

text \<open>
  The first loop of \<^verbatim>\<open>translate\<close>: every rule takes the name of the container it
  resolves to. The rules are pointers, so the caller's rules change; the rules before a
  failing one keep the name they were given.
\<close>

fun resolveContainers ::
    "string \<Rightarrow> podSpec \<Rightarrow> translationRule list \<Rightarrow> error option \<times> translationRule list" where
  "resolveContainers dname spec [] = (None, [])"
| "resolveContainers dname spec (rule # rules) =
     (case GetDevContainer spec (r_Container rule) of
        Inl e \<Rightarrow> (Some e, rule # rules)
      | Inr None \<Rightarrow> (Some (containerNotFound (r_Container rule) dname), rule # rules)
      | Inr (Some i) \<Rightarrow>
          (let (e, rules') = resolveContainers dname spec rules
           in (e, rule\<lparr>r_Container := c_Name (ps_Containers spec ! i)\<rparr> # rules')))"

text \<open>The body of the second loop of \<^verbatim>\<open>translate\<close>, for one rule.\<close>

definition translateRule ::
    "string \<Rightarrow> string \<Rightarrow> podSpec \<Rightarrow> translationRule \<Rightarrow> error + (podSpec \<times> translationRule)" where
  "translateRule dname tname spec rule =
     (case GetDevContainer spec (r_Container rule) of
        Inl e \<Rightarrow> Inl e
      | Inr None \<Rightarrow> Inl (containerNotFound (r_Container rule) dname)
      | Inr (Some i) \<Rightarrow>
          (case TranslateDevContainer (ps_Containers spec ! i) rule of
             Inl e \<Rightarrow> Inl e
           | Inr (c, rule1) \<Rightarrow>
               (let rule2 = rule1\<lparr>r_InitContainer := TranslateInitContainer (r_InitContainer rule1)\<rparr>;
                    spec1 = spec\<lparr>ps_Containers := (ps_Containers spec)[i := c]\<rparr>;
                    spec2 = TranslateOktetoVolumes spec1 rule2;
                    spec3 = TranslatePodSecurityContext spec2 (r_SecurityContext rule2);
                    spec4 = TranslatePodServiceAccount spec3 (r_ServiceAccount rule2);
                    spec5 = TranslateOktetoDevSecret spec4 tname (r_Secrets rule2)
                in if r_IsMainDevContainer rule2 then
                     (let spec6 = spec5\<lparr>ps_Containers :=
                            (ps_Containers spec5)
                              [i := TranslateOktetoBinVolumeMounts (ps_Containers spec5 ! i)]\<rparr>;
                          spec7 = TranslateOktetoInitBinContainer (r_InitContainer rule2) spec6
                      in Inr (TranslateOktetoBinVolume spec7, rule2))
                   else Inr (spec5, rule2))))"

fun translateRules ::
    "string \<Rightarrow> string \<Rightarrow> podSpec \<Rightarrow> translationRule list
      \<Rightarrow> error option \<times> podSpec \<times> translationRule list" where
  "translateRules dname tname spec [] = (None, spec, [])"
| "translateRules dname tname spec (rule # rules) =
     (case translateRule dname tname spec rule of
        Inl e \<Rightarrow> (Some e, spec, rule # rules)
      | Inr (spec', rule') \<Rightarrow>
          (let (e, spec'', rules') = translateRules dname tname spec' rules
           in (e, spec'', rule' # rules')))"

definition devReplicas :: int where "devReplicas = 1"
definition devTerminationGracePeriodSeconds :: int where
  "devTerminationGracePeriodSeconds = 0"

definition commonTranslation :: "translation \<Rightarrow> translation" where
  "commonTranslation t =
     (let d = t_Deployment t;
          m1 = TranslateDevAnnotations (d_ObjectMeta d) (t_Annotations t);
          m2 = setAnnotation m1 oktetoVersionAnnotation (Str Version);
          m3 = setLabel m2 DevLabel ''true'';
          d1 = set_d_ObjectMeta m3 d;
          d2 = (if t_Interactive t
                then set_templateMeta (setLabel (templateMeta d1) InteractiveDevLabel (t_Name t)) d1
                else set_templateMeta (setLabel (templateMeta d1) DetachedDevLabel (t_Name t)) d1)
      in t\<lparr>t_Deployment := set_d_Replicas (Some devReplicas) d2\<rparr>)"

definition emptyStatus :: deploymentStatus where
  "emptyStatus =
     \<lparr>st_ObservedGeneration = 0, st_Replicas = 0, st_UpdatedReplicas = 0,
      st_ReadyReplicas = 0, st_AvailableReplicas = 0, st_UnavailableReplicas = 0\<rparr>"

definition deleteRevision :: "deployment \<Rightarrow> deployment" where
  "deleteRevision d =
     set_d_ObjectMeta
       (set_om_Annotations ((om_Annotations (d_ObjectMeta d))(revisionAnnotation := None))
          (d_ObjectMeta d)) d"

definition JsonSyntaxError :: error where
  "JsonSyntaxError = ApiError ''invalid character looking for beginning of value''"

text \<open>
  The part of \<^verbatim>\<open>translate\<close> that runs on the client, from the clearing of the
  status on: the snapshot of the deployment into the reversibility annotation, the common
  translation, the statements on the pod template, and the loop over the rules.
\<close>

definition stampOriginal :: "translation \<Rightarrow> translation" where
  "stampOriginal t =
     (let d1 = set_d_Status emptyStatus (t_Deployment t)
      in t\<lparr>t_Deployment :=
             set_d_ObjectMeta
               (setAnnotation (d_ObjectMeta d1) oktetoDeploymentAnnotation (Json d1)) d1\<rparr>)"

definition translateTemplate :: "translation \<Rightarrow> translation" where
  "translateTemplate t =
     (let d = t_Deployment t;
          m = TranslateDevAnnotations (setLabel (templateMeta d) DevLabel ''true'')
                (t_Annotations t);
          sp1 = TranslateDevTolerations (templateSpec d) (t_Tolerations t);
          sp2 = sp1\<lparr>ps_TerminationGracePeriodSeconds := Some devTerminationGracePeriodSeconds\<rparr>;
          sp3 = (if t_Interactive t then TranslateOktetoSyncSecret sp2 (t_Name t)
                 else TranslatePodAffinity sp2 (t_Name t))
      in t\<lparr>t_Deployment := set_templateSpec sp3 (set_templateMeta m d)\<rparr>)"

definition clientPrepared :: "translation \<Rightarrow> translation" where
  "clientPrepared t = translateTemplate (commonTranslation (stampOriginal t))"

definition clientTranslation :: "translation \<Rightarrow> error option \<times> translation" where
  "clientTranslation t =
     (let t1 = clientPrepared t;
          (e, sp, rules) =
             translateRules (om_Name (d_ObjectMeta (t_Deployment t1))) (t_Name t1)
               (templateSpec (t_Deployment t1)) (t_Rules t1)
      in (e, t1\<lparr>t_Deployment := set_templateSpec sp (t_Deployment t1), t_Rules := rules\<rparr>))"

text \<open>
  \<^verbatim>\<open>translate\<close>. The function \<^verbatim>\<open>setTranslationAsAnnotation\<close> is declared in
  another file of the package and is the parameter \<open>staa\<close>; \<open>c\<close> says that the
  client is not nil, and \<open>env\<close> is the value of the environment variable
  \<^verbatim>\<open>OKTETO_CLIENTSIDE_TRANSLATION\<close>. The translation is changed in place, so it is
  returned with the error.
\<close>

definition translate ::
    "(translation \<Rightarrow> error option \<times> translation) \<Rightarrow> string \<Rightarrow> translation \<Rightarrow> bool \<Rightarrow> bool
      \<Rightarrow> error option \<times> translation" where
  "translate staa env t c isOktetoNamespace =
     (case resolveContainers (om_Name (d_ObjectMeta (t_Deployment t)))
             (templateSpec (t_Deployment t)) (t_Rules t) of
        (Some e, rules) \<Rightarrow> (Some e, t\<lparr>t_Rules := rules\<rparr>)
      | (None, rules) \<Rightarrow>
          (case getAnnotation (d_ObjectMeta (t_Deployment t)) oktetoDeploymentAnnotation of
             Str (x # xs) \<Rightarrow> (Some JsonSyntaxError, t\<lparr>t_Rules := rules\<rparr>)
           | manifest \<Rightarrow>
               (let dOrig = (case manifest of Json d \<Rightarrow> d | Str s \<Rightarrow> t_Deployment t);
                    t1 = t\<lparr>t_Rules := rules, t_Deployment := deleteRevision dOrig\<rparr>
                in if c \<and> isOktetoNamespace \<and> env = []
                   then staa (commonTranslation t1)
                   else clientTranslation t1)))"

section \<open>Strings\<close>

text \<open>\<^verbatim>\<open>strings.Contains\<close> and \<^verbatim>\<open>strings.Replace\<close> with the count 1.\<close>

fun hasPrefix :: "string \<Rightarrow> string \<Rightarrow> bool" where
  "hasPrefix s [] = True"
| "hasPrefix [] (p # ps) = False"
| "hasPrefix (c # cs) (p # ps) = (c = p \<and> hasPrefix cs ps)"

fun contains :: "string \<Rightarrow> string \<Rightarrow> bool" where
  "contains [] substr = (substr = [])"
| "contains (c # cs) substr = (hasPrefix (c # cs) substr \<or> contains cs substr)"

fun replaceFirst :: "string \<Rightarrow> string \<Rightarrow> string \<Rightarrow> string" where
  "replaceFirst [] old new = (if old = [] then new else [])"
| "replaceFirst (c # cs) old new =
     (if hasPrefix (c # cs) old then new @ drop (length old) (c # cs)
      else c # replaceFirst cs old new)"

section \<open>Persistent volume claims\<close>

record persistentVolumeClaim =
  pvc_Name :: string
  pvc_StorageClassName :: "string option"
  pvc_Requests :: resourceList

text \<open>
  A \<^verbatim>\<open>model.Dev\<close>, as far as package \<^verbatim>\<open>volumes\<close> reads it. Modelled from the
  spec: the methods \<^verbatim>\<open>PersistentVolumeSize\<close>, \<^verbatim>\<open>PersistentVolumeStorageClass\<close>
  and \<^verbatim>\<open>GetVolumeName\<close> are declared in package \<^verbatim>\<open>model\<close>; the spec gives a
  claim a name, a size and a storage class, and the results of the methods are fields.
\<close>

record dev =
  dev_Namespace :: string
  dev_VolumeName :: string
  dev_PersistentVolumeSize :: string
  dev_PersistentVolumeStorageClass :: string

text \<open>
  What package \<^verbatim>\<open>volumes\<close> takes from elsewhere: \<^verbatim>\<open>resource.MustParse\<close>
  (\<open>None\<close> where it panics) and the text of a quantity, the constant
  \<^verbatim>\<open>model.OktetoDefaultPVSize\<close>, its own \<^verbatim>\<open>translate\<close> that builds the claim
  of a \<^verbatim>\<open>Dev\<close>, \<^verbatim>\<open>errors.IsNotFound\<close>, \<^verbatim>\<open>config.GetTimeout\<close> and the text
  of a duration. Durations and instants are counted in nanoseconds.
\<close>

record volumesDeps =
  MustParse :: "string \<Rightarrow> quantity option"
  QuantityString :: "quantity \<Rightarrow> string"
  OktetoDefaultPVSize :: string
  translatePVC :: "dev \<Rightarrow> persistentVolumeClaim"
  IsNotFound :: "string \<Rightarrow> bool"
  GetTimeout :: int
  DurationString :: "int \<Rightarrow> string"

text \<open>The value of \<^verbatim>\<open>resource.MustParse("10Gi")\<close>, in thousandths.\<close>

definition tenGi :: quantity where "tenGi = 10 * 1024 * 1024 * 1024 * 1000"

definition runDownAndRetry :: string where
  "runDownAndRetry = ''. Run '' @ quoted ''okteto down -v'' @ '' and try again''"

definition wrongSizeError :: error where
  "wrongSizeError = Errorf (''current okteto volume size is wrong'' @ runDownAndRetry)"

definition sizeMismatchError :: "string \<Rightarrow> string \<Rightarrow> error" where
  "sizeMismatchError current wanted =
     Errorf (''current okteto volume size is '' @ quoted current @ '' instead of ''
             @ quoted wanted @ runDownAndRetry)"

definition storageClassMismatchError :: "string \<Rightarrow> string \<Rightarrow> error" where
  "storageClassMismatchError current wanted =
     Errorf (''current okteto volume storageclass is '' @ quoted current @ '' instead of ''
             @ quoted wanted @ runDownAndRetry)"

definition checkStorageClass :: "persistentVolumeClaim \<Rightarrow> dev \<Rightarrow> error option" where
  "checkStorageClass pvc d =
     (if dev_PersistentVolumeStorageClass d \<noteq> [] then
        (case pvc_StorageClassName pvc of
           None \<Rightarrow> Some (storageClassMismatchError [] (dev_PersistentVolumeStorageClass d))
         | Some cl \<Rightarrow>
             if dev_PersistentVolumeStorageClass d \<noteq> cl
             then Some (storageClassMismatchError cl (dev_PersistentVolumeStorageClass d))
             else None)
      else None)"

definition checkPVCValues ::
    "volumesDeps \<Rightarrow> persistentVolumeClaim \<Rightarrow> dev \<Rightarrow> error option" where
  "checkPVCValues deps pvc d =
     (case pvc_Requests pvc ''storage'' of
        None \<Rightarrow> Some wrongSizeError
      | Some currentSize \<Rightarrow>
          (case MustParse deps (dev_PersistentVolumeSize d) of
             None \<Rightarrow> Some (Panic ''cannot parse the quantity'')
           | Some wanted \<Rightarrow>
               if currentSize \<noteq> wanted \<and>
                  (currentSize \<noteq> tenGi \<or> dev_PersistentVolumeSize d \<noteq> OktetoDefaultPVSize deps)
               then Some (sizeMismatchError (QuantityString deps currentSize)
                            (dev_PersistentVolumeSize d))
               else checkStorageClass pvc d))"

text \<open>
  The calls a function makes to the cluster are recorded in order. \<^verbatim>\<open>Create\<close> takes
  the answers of the cluster as arguments: \<open>got\<close> is the claim and the error that
  \<^verbatim>\<open>Get\<close> returns (an empty claim comes with an error), \<open>created\<close> the error of
  \<^verbatim>\<open>Create\<close>.
\<close>

datatype apiCall =
  GetClaim string | CreateClaim persistentVolumeClaim | UpdateClaim persistentVolumeClaim
  | DeleteClaim string | ListPods

definition getFailure :: "string option \<Rightarrow> string option" where
  "getFailure e =
     (case e of
        None \<Rightarrow> None
      | Some err \<Rightarrow> if \<not> contains err ''not found'' then Some err else None)"

definition Create ::
    "volumesDeps \<Rightarrow> dev \<Rightarrow> persistentVolumeClaim \<times> string option \<Rightarrow> string option
      \<Rightarrow> error option \<times> apiCall list" where
  "Create deps d got created =
     (let pvc = translatePVC deps d; k8Volume = fst got
      in case getFailure (snd got) of
           Some err \<Rightarrow>
             (Some (Errorf (''error getting kubernetes volume claim: '' @ err)),
              [GetClaim (pvc_Name pvc)])
         | None \<Rightarrow>
             if pvc_Name k8Volume \<noteq> []
             then (checkPVCValues deps k8Volume d, [GetClaim (pvc_Name pvc)])
             else (case created of
                     Some err \<Rightarrow>
                       (Some (Errorf (''error creating kubernetes volume claim: '' @ err)),
                        [GetClaim (pvc_Name pvc), CreateClaim pvc])
                   | None \<Rightarrow> (None, [GetClaim (pvc_Name pvc), CreateClaim pvc])))"

section \<open>Destroying a volume claim\<close>

text \<open>
  A pod, as the watcher and the volume check read it: its name, its phase, its deletion
  timestamp and its spec.
\<close>

record pod =
  pod_Name :: string
  pod_Phase :: string
  pod_DeletionTimestamp :: "int option"
  pod_Spec :: podSpec





text \<open>
  A function that waits either returns or is still waiting when what it was shown of the
  world ends.
\<close>

datatype 'a outcome = StillWaiting | Returned 'a






section \<open>Waiting for the pods of a stack to go\<close>

definition second :: int where "second = 1000000000"
definition millisecond :: int where "millisecond = 1000000"

text \<open>
  One round of the loop of \<^verbatim>\<open>waitForPodsToBeDestroyed\<close> meets the instant that
  \<^verbatim>\<open>time.Now()\<close> reads in the loop's condition and, after the tick, the answer of
  \<^verbatim>\<open>pods.ListBySelector\<close> for the stack's label: an error or the pods.
\<close>

record podsRound =
  pr_Now :: int
  pr_Listed :: "string + pod list"

definition tickerInterval :: int where "tickerInterval = 100 * millisecond"
definition podsTimeout :: int where "podsTimeout = 300 * second"

definition takingTooLong :: string where
  "takingTooLong =
     ''kubernetes is taking too long to destroy your stack. Please check for errors and try again''"

fun podsLoop :: "int \<Rightarrow> podsRound list \<Rightarrow> error option outcome" where
  "podsLoop timeout [] = StillWaiting"
| "podsLoop timeout (r # rs) =
     (if pr_Now r < timeout then
        (case pr_Listed r of
           Inl err \<Rightarrow> Returned (Some (ApiError err))
         | Inr podList \<Rightarrow> if podList = [] then Returned None else podsLoop timeout rs)
      else Returned (Some (Errorf takingTooLong)))"

definition waitForPodsToBeDestroyed :: "int \<Rightarrow> podsRound list \<Rightarrow> error option outcome" where
  "waitForPodsToBeDestroyed start rounds = podsLoop (start + podsTimeout) rounds"

section \<open>Waiting for the development container\<close>

record event =
  ev_Reason :: string
  ev_Message :: string
  ev_ResourceVersion :: string

text \<open>
  What a round of the loop of \<^verbatim>\<open>waitUntilDevelopmentContainerIsRunning\<close> receives:
  an event of the pod, an object on the event stream that is no event (with the error, if
  any, of watching again), the pod, an object on the pod stream that is no pod (likewise),
  or the end of the context with its error.
\<close>

datatype received =
  Event event | NoEvent "string option" | PodObject pod | NoPod "string option"
  | ContextDone string

text \<open>
  What the loop leaves behind: the text of the spinner, the state written to the state
  file and the resource version from which the events are watched. Modelled from the
  spec: \<^verbatim>\<open>config.UpdateStateFile\<close> is declared in package \<^verbatim>\<open>config\<close>; a
  \<open>Pulling\<close> event sets the status to pulling, and a failure to write it is only logged.
\<close>

record watch =
  w_Spinner :: string
  w_State :: string
  w_ResourceVersion :: string

definition terminalReasons :: "string list" where
  "terminalReasons =
     [''Failed'', ''FailedScheduling'', ''FailedCreatePodSandBox'', ''ErrImageNeverPull'',
      ''InspectFailed'', ''FailedCreatePodContainer'']"

definition unboundClaims :: string where
  "unboundClaims = ''pod has unbound immediate PersistentVolumeClaims''"

definition PodRunning :: string where "PodRunning = ''Running''"

text \<open>
  The loop. A terminal event returns \<^verbatim>\<open>fmt.Errorf(e.Message)\<close>: the message is the
  format, and there are no operands. What \<^verbatim>\<open>fmt\<close> renders of a format without
  operands is the parameter \<open>sprintf\<close>; the text of the error is \<open>sprintf\<close> of the
  message, not the message.
\<close>

fun watchLoop ::
    "(string \<Rightarrow> string) \<Rightarrow> watch \<Rightarrow> received list \<Rightarrow> error option outcome \<times> watch" where
  "watchLoop sprintf w [] = (StillWaiting, w)"
| "watchLoop sprintf w (Event e # rs) =
     (let w1 = w\<lparr>w_ResourceVersion := ev_ResourceVersion e\<rparr>
      in if ev_Reason e \<in> set terminalReasons then
           (if contains (ev_Message e) unboundClaims then watchLoop sprintf w1 rs
            else (Returned (Some (Errorf (sprintf (ev_Message e)))), w1))
         else if ev_Reason e = ''SuccessfulAttachVolume'' then
           watchLoop sprintf (w1\<lparr>w_Spinner := ''Pulling images...''\<rparr>) rs
         else if ev_Reason e = ''Killing'' then (Returned (Some ErrDevPodDeleted), w1)
         else if ev_Reason e = ''Pulling'' then
           watchLoop sprintf
             (w1\<lparr>w_Spinner := replaceFirst (ev_Message e) ''Pulling'' ''pulling'' @ ''...'',
                  w_State := ''pulling''\<rparr>) rs
         else watchLoop sprintf w1 rs)"
| "watchLoop sprintf w (NoEvent watched # rs) =
     (case watched of
        Some err \<Rightarrow> (Returned (Some (ApiError err)), w)
      | None \<Rightarrow> watchLoop sprintf w rs)"
| "watchLoop sprintf w (PodObject p # rs) =
     (if pod_Phase p = PodRunning then (Returned None, w)
      else if pod_DeletionTimestamp p \<noteq> None then (Returned (Some ErrDevPodDeleted), w)
      else watchLoop sprintf w rs)"
| "watchLoop sprintf w (NoPod watched # rs) =
     (case watched of
        Some err \<Rightarrow> (Returned (Some (ApiError err)), w)
      | None \<Rightarrow> watchLoop sprintf w rs)"
| "watchLoop sprintf w (ContextDone err # rs) = (Returned (Some (ApiError err)), w)"

definition waitUntilDevelopmentContainerIsRunning ::
    "(string \<Rightarrow> string) \<Rightarrow> bool \<Rightarrow> string option \<Rightarrow> string option \<Rightarrow> watch
      \<Rightarrow> received list \<Rightarrow> error option outcome \<times> watch" where
  "waitUntilDevelopmentContainerIsRunning sprintf persistentVolumeEnabled watchedPod
       watchedEvents w rs =
     (let w1 = (if persistentVolumeEnabled
                then w\<lparr>w_Spinner := ''Attaching persistent volume...'', w_State := ''attaching''\<rparr>
                else w\<lparr>w_Spinner := ''Pulling images...''\<rparr>)
      in case watchedPod of
           Some err \<Rightarrow> (Returned (Some (ApiError err)), w1)
         | None \<Rightarrow>
             (case watchedEvents of
                Some err \<Rightarrow> (Returned (Some (ApiError err)), w1)
              | None \<Rightarrow> watchLoop sprintf w1 rs))"

section \<open>What the specification says, and concrete inputs\<close>

text \<open>The security context a container has, the empty one when the pointer is nil.\<close>

definition securityContextOf :: "container \<Rightarrow> securityContext" where
  "securityContextOf c =
     (case c_SecurityContext c of None \<Rightarrow> emptySecurityContext | Some x \<Rightarrow> x)"





text \<open>The four resource names that \<^verbatim>\<open>TranslateResources\<close> copies.\<close>

definition translatedResources :: "string set" where
  "translatedResources = {ResourceMemory, ResourceCPU, ResourceAMDGPU, ResourceNVIDIAGPU}"

definition overrideResource :: "resourceList \<Rightarrow> resourceList \<Rightarrow> string \<Rightarrow> quantity option" where
  "overrideResource src dst k = (case src k of None \<Rightarrow> dst k | Some v \<Rightarrow> Some v)"

text \<open>A container \<open>api\<close> with a read-only root file system and two variables.\<close>

definition apiContainer :: container where
  "apiContainer =
     \<lparr>c_Name = ''api'', c_Image = ''nginx'', c_ImagePullPolicy = ''Always'', c_WorkingDir = [],
      c_Command = [], c_Args = [], c_Ports = [8080], c_LivenessProbe = Some ''http'',
      c_ReadinessProbe = None, c_StartupProbe = None, c_Resources = emptyResources,
      c_Env = [\<lparr>env_Name = ''HOME'', env_Value = ''/root'', env_ValueFrom = None\<rparr>,
               \<lparr>env_Name = ''MODE'', env_Value = ''prod'', env_ValueFrom = None\<rparr>],
      c_VolumeMounts = [],
      c_SecurityContext =
        Some (emptySecurityContext\<lparr>sc_ReadOnlyRootFilesystem := Some True\<rparr>)\<rparr>"

definition capabilitiesOverride :: ruleSecurityContext where
  "capabilitiesOverride =
     \<lparr>rsc_RunAsUser = None, rsc_RunAsGroup = None, rsc_FSGroup = None,
      rsc_Capabilities = Some \<lparr>cap_Add = [''SYS_PTRACE''], cap_Drop = []\<rparr>\<rparr>"

definition storageRequest :: resourceRequirements where
  "storageRequest =
     \<lparr>res_Limits = Map.empty, res_Requests = [''ephemeral-storage'' \<mapsto> 2000000]\<rparr>"


definition emptyInitContainer :: initContainer where
  "emptyInitContainer = \<lparr>ic_Image = ''okteto/bin:1.2.2'', ic_Resources = emptyResources\<rparr>"

text \<open>A rule for the first container, with no image, that sets \<open>MODE\<close> and \<open>DEBUG\<close>.\<close>

definition devRule :: translationRule where
  "devRule =
     \<lparr>r_Marker = ''okteto.yml'', r_Container = [], r_Image = [], r_ImagePullPolicy = ''Always'',
      r_Environment = [\<lparr>renv_Name = ''MODE'', renv_Value = ''dev''\<rparr>,
                       \<lparr>renv_Name = ''DEBUG'', renv_Value = ''1''\<rparr>],
      r_Secrets = [], r_Command = [''sh''], r_Args = [], r_WorkDir = ''/src'',
      r_Probes = Some \<lparr>pr_Liveness = False, pr_Readiness = False, pr_Startup = False\<rparr>,
      r_PersistentVolume = True,
      r_Volumes = [\<lparr>rv_Name = ''okteto-api'', rv_MountPath = ''/src'', rv_SubPath = ''src'',
                    rv_IsSyncthing = False\<rparr>],
      r_SecurityContext = None, r_ServiceAccount = [], r_Resources = emptyResources,
      r_InitContainer = emptyInitContainer, r_IsMainDevContainer = True\<rparr>"

text \<open>
  The requested claim matches the existing one when the sizes are equal and the storage
  class, if the caller asks for one, is the claim's.
\<close>

definition storageClassMatches :: "persistentVolumeClaim \<Rightarrow> dev \<Rightarrow> bool" where
  "storageClassMatches pvc d =
     (dev_PersistentVolumeStorageClass d = [] \<or>
      pvc_StorageClassName pvc = Some (dev_PersistentVolumeStorageClass d))"



text \<open>A round of the pod wait before the timeout in which pods are still listed.\<close>

definition podsRemain :: "int \<Rightarrow> podsRound \<Rightarrow> bool" where
  "podsRemain timeout r =
     (pr_Now r < timeout \<and> (case pr_Listed r of Inl err \<Rightarrow> False | Inr ps \<Rightarrow> ps \<noteq> []))"

text \<open>A small parser of quantities, a claim of 10Gi and a \<^verbatim>\<open>Dev\<close> that asks for 2Gi.\<close>

definition gi :: int where "gi = 1024 * 1024 * 1024 * 1000"

definition demoDeps :: volumesDeps where
  "demoDeps =
     \<lparr>MustParse = (\<lambda>s. if s = ''2Gi'' then Some (2 * gi) else if s = ''5Gi'' then Some (5 * gi)
                        else if s = ''10Gi'' then Some (10 * gi) else None),
      QuantityString = (\<lambda>q. if q = 10 * gi then ''10Gi'' else if q = 5 * gi then ''5Gi''
                             else ''2Gi''),
      OktetoDefaultPVSize = ''2Gi'',
      translatePVC = (\<lambda>d. \<lparr>pvc_Name = dev_VolumeName d,
                             pvc_StorageClassName = None,
                             pvc_Requests = Map.empty\<rparr>),
      IsNotFound = (\<lambda>err. contains err ''not found''),
      GetTimeout = 30 * second,
      DurationString = (\<lambda>d. ''1m30s'')\<rparr>"

definition demoDev :: dev where
  "demoDev =
     \<lparr>dev_Namespace = ''staging'', dev_VolumeName = ''okteto-api'',
      dev_PersistentVolumeSize = ''2Gi'', dev_PersistentVolumeStorageClass = []\<rparr>"

definition claimOf :: "quantity \<Rightarrow> persistentVolumeClaim" where
  "claimOf q =
     \<lparr>pvc_Name = ''okteto-api'', pvc_StorageClassName = Some ''standard'',
      pvc_Requests = [''storage'' \<mapsto> q]\<rparr>"

definition emptyPodSpec :: podSpec where
  "emptyPodSpec =
     \<lparr>ps_Volumes = [], ps_InitContainers = [], ps_Containers = [],
      ps_TerminationGracePeriodSeconds = None, ps_ServiceAccountName = [],
      ps_SecurityContext = None, ps_Affinity = None, ps_Tolerations = []\<rparr>"

text \<open>A pod \<open>api-0\<close> that mounts the claim \<open>okteto-api\<close>, and a pod without volumes.\<close>

definition attachedDemoPod :: pod where
  "attachedDemoPod =
     \<lparr>pod_Name = ''api-0'', pod_Phase = ''Running'', pod_DeletionTimestamp = None,
      pod_Spec = emptyPodSpec\<lparr>ps_Volumes :=
        [\<lparr>v_Name = ''data'',
          v_VolumeSource = emptyVolumeSource\<lparr>vs_PersistentVolumeClaim :=
            Some \<lparr>pvcs_ClaimName = ''okteto-api'', pvcs_ReadOnly = False\<rparr>\<rparr>\<rparr>]\<rparr>\<rparr>"

definition pendingDemoPod :: pod where
  "pendingDemoPod =
     \<lparr>pod_Name = ''web-0'', pod_Phase = ''Pending'', pod_DeletionTimestamp = None,
      pod_Spec = emptyPodSpec\<rparr>"

definition demoWatch :: watch where
  "demoWatch = \<lparr>w_Spinner = [], w_State = ''starting'', w_ResourceVersion = []\<rparr>"

definition demoEvent :: "string \<Rightarrow> string \<Rightarrow> event" where
  "demoEvent reason message =
     \<lparr>ev_Reason = reason, ev_Message = message, ev_ResourceVersion = ''42''\<rparr>"

text \<open>
  The message of a pull that failed to authorize, with a percent-encoded scope, and what
  \<^verbatim>\<open>fmt\<close> renders of it as a format without operands: \<^verbatim>\<open>%3A\<close> is the verb
  \<^verbatim>\<open>A\<close> with the width 3, and its operand is missing. The function below renders that
  one message so and leaves every other string as it is, which is what \<^verbatim>\<open>fmt\<close> does
  with a string that has no percent sign; it stands in for \<^verbatim>\<open>fmt\<close> on the messages
  of this section only.
\<close>

definition percentMessage :: string where
  "percentMessage = ''failed to authorize: scope=repository%3Alibrary''"

definition percentRendered :: string where
  "percentRendered = ''failed to authorize: scope=repository%!A(MISSING)library''"

definition demoSprintf :: "string \<Rightarrow> string" where
  "demoSprintf format = (if format = percentMessage then percentRendered else format)"



text \<open>The stored original of a deployment: its revision annotation and its status cleared.\<close>

definition storedOriginal :: "deployment \<Rightarrow> deployment" where
  "storedOriginal d = set_d_Status emptyStatus (deleteRevision d)"

text \<open>\<^verbatim>\<open>setTranslationAsAnnotation\<close> stood in for by the function that does nothing.\<close>

definition noTranslationAnnotation :: "translation \<Rightarrow> error option \<times> translation" where
  "noTranslationAnnotation t = (None, t)"

text \<open>
  A deployment \<open>api\<close> with the container \<open>api\<close> and a revision annotation, and a
  translation of it with the rule above.
\<close>

definition demoDeployment :: deployment where
  "demoDeployment =
     Deployment
       (ObjectMeta ''api'' [''app'' \<mapsto> ''api''] [revisionAnnotation \<mapsto> Str ''3''])
       (DeploymentSpec (Some 3)
          (PodTemplateSpec (ObjectMeta [] [''app'' \<mapsto> ''api''] Map.empty)
             (emptyPodSpec\<lparr>ps_Containers := [apiContainer]\<rparr>)))
       (emptyStatus\<lparr>st_Replicas := 3, st_ReadyReplicas := 3\<rparr>)"

definition demoTranslation :: translation where
  "demoTranslation =
     \<lparr>t_Interactive = True, t_Name = ''api'', t_Deployment = demoDeployment,
      t_Annotations = [''team'' \<mapsto> Str ''payments''], t_Tolerations = [],
      t_Rules = [devRule]\<rparr>"

text \<open>The same translation, whose caller sets the key of the reversibility annotation.\<close>

definition clashingTranslation :: translation where
  "clashingTranslation =
     demoTranslation\<lparr>t_Annotations := [oktetoDeploymentAnnotation \<mapsto> Str ''mine'']\<rparr>"

text \<open>A rule whose container name is the name of the container it resolves to.\<close>

definition resolvedIn :: "podSpec \<Rightarrow> translationRule \<Rightarrow> bool" where
  "resolvedIn sp r =
     (case GetDevContainer sp (r_Container r) of
        Inr (Some i) \<Rightarrow> c_Name (ps_Containers sp ! i) = r_Container r
      | _ \<Rightarrow> False)"

text \<open>
  The rule that the body of the second loop leaves, when it finds the container at the
  index \<open>i\<close>: the image filled in and the init container's resources defaulted.
\<close>

definition ruleAfter :: "podSpec \<Rightarrow> nat \<Rightarrow> translationRule \<Rightarrow> translationRule" where
  "ruleAfter sp i r =
     r\<lparr>r_Image := (if r_Image r = [] then c_Image (ps_Containers sp ! i) else r_Image r),
       r_InitContainer := TranslateInitContainer (r_InitContainer r)\<rparr>"

section \<open>The container security context (C8)\<close>

text \<open>
  C8, as the specification states it, fails: a rule that carries capabilities clears the
  read-only root file system flag of the container. Here the container \<open>api\<close> has the
  flag set and loses it.
\<close>

theorem TranslateContainerSecurityContext_clears_ReadOnlyRootFilesystem:
  "sc_ReadOnlyRootFilesystem
     (securityContextOf (TranslateContainerSecurityContext apiContainer (Some capabilitiesOverride)))
   \<noteq> sc_ReadOnlyRootFilesystem (securityContextOf apiContainer)"
  by (simp add: TranslateContainerSecurityContext_def securityContextOf_def apiContainer_def
      capabilitiesOverride_def emptySecurityContext_def setRunAsUser_def setRunAsGroup_def
      mergeCapabilities_def emptyCapabilities_def)

text \<open>
  C8, amended: for every container and every security-context override of a rule, the
  merge changes nothing of the container but its security context, and of that only
  \<^item> the user and group ids, to the rule's when the rule gives them;
  \<^item> the non-root flag, switched off when the rule gives a zero user or group id;
  \<^item> the capabilities, to which the rule's additions and removals are appended when the
    rule carries capabilities;
  \<^item> the read-only root file system flag, cleared when the rule carries capabilities and
    kept otherwise.
  Every other field of the security context keeps its value.
\<close>

theorem TranslateContainerSecurityContext_frame:
  "TranslateContainerSecurityContext c (Some rs) =
     c\<lparr>c_SecurityContext := Some
        ((securityContextOf c)
          \<lparr>sc_RunAsUser := (case rsc_RunAsUser rs of
               None \<Rightarrow> sc_RunAsUser (securityContextOf c) | Some u \<Rightarrow> Some u),
           sc_RunAsGroup := (case rsc_RunAsGroup rs of
               None \<Rightarrow> sc_RunAsGroup (securityContextOf c) | Some g \<Rightarrow> Some g),
           sc_RunAsNonRoot :=
             (if rsc_RunAsUser rs = Some 0 \<or> rsc_RunAsGroup rs = Some 0 then Some False
              else sc_RunAsNonRoot (securityContextOf c)),
           sc_Capabilities := (case rsc_Capabilities rs of
               None \<Rightarrow> sc_Capabilities (securityContextOf c)
             | Some rc \<Rightarrow> Some
                 \<lparr>cap_Add = (case sc_Capabilities (securityContextOf c) of
                      None \<Rightarrow> [] | Some k \<Rightarrow> cap_Add k) @ cap_Add rc,
                  cap_Drop = (case sc_Capabilities (securityContextOf c) of
                      None \<Rightarrow> [] | Some k \<Rightarrow> cap_Drop k) @ cap_Drop rc\<rparr>),
           sc_ReadOnlyRootFilesystem :=
             (if rsc_Capabilities rs = None
              then sc_ReadOnlyRootFilesystem (securityContextOf c) else None)\<rparr>)\<rparr>"
  by (cases "rsc_RunAsUser rs"; cases "rsc_RunAsGroup rs"; cases "rsc_Capabilities rs";
      cases "sc_Capabilities (securityContextOf c)")
     (simp_all add: TranslateContainerSecurityContext_def securityContextOf_def
      setRunAsUser_def setRunAsGroup_def mergeCapabilities_def emptyCapabilities_def Let_def)

section \<open>The merge of resources (C3)\<close>

text \<open>
  C3, as the specification states it, fails: a key of the rule outside the four resource
  names that the code copies does not reach the container. Here the rule requests
  ephemeral storage and the container's requests still lack it.
\<close>

theorem TranslateResources_ignores_other_key:
  "res_Requests (c_Resources (TranslateResources apiContainer storageRequest))
     ''ephemeral-storage'' = None
   \<and> res_Requests storageRequest ''ephemeral-storage'' = Some 2000000"
  by (simp add: TranslateResources_def mergeResourceList_def copyResource_def
      apiContainer_def storageRequest_def emptyResources_def ResourceMemory_def
      ResourceCPU_def ResourceAMDGPU_def ResourceNVIDIAGPU_def)

lemma copyResource_apply:
  "copyResource k src dst k' = (if k' = k then overrideResource src dst k else dst k')"
  by (simp add: copyResource_def overrideResource_def split: option.splits)

lemma mergeResourceList_apply:
  "mergeResourceList src dst k =
     (if k \<in> translatedResources then overrideResource src dst k else dst k)"
  by (auto simp: mergeResourceList_def copyResource_apply translatedResources_def
      overrideResource_def split: option.splits)

text \<open>
  C3, amended: for every container, rule and resource name, a name among memory, CPU and
  the two GPU resources takes the rule's value when the rule has that key and keeps the
  container's otherwise; every other name keeps the container's value, whatever the rule
  holds. This is so for the requests and for the limits, and nothing else of the
  container changes.
\<close>

theorem TranslateResources_merge:
  "res_Requests (c_Resources (TranslateResources c r)) k =
     (if k \<in> translatedResources
      then overrideResource (res_Requests r) (res_Requests (c_Resources c)) k
      else res_Requests (c_Resources c) k)
   \<and> res_Limits (c_Resources (TranslateResources c r)) k =
     (if k \<in> translatedResources
      then overrideResource (res_Limits r) (res_Limits (c_Resources c)) k
      else res_Limits (c_Resources c) k)
   \<and> TranslateResources c r = c\<lparr>c_Resources := c_Resources (TranslateResources c r)\<rparr>"
  by (simp add: TranslateResources_def mergeResourceList_apply)

section \<open>The merge of environment variables (C2)\<close>









section \<open>Creating a volume claim (C4)\<close>

text \<open>
  C4: when \<^verbatim>\<open>Get\<close> finds a claim of that name, \<^verbatim>\<open>Create\<close> calls the cluster
  no further, so it neither creates nor updates a claim, and
  \<^item> it returns no error when the claim's storage size is the requested one and the
    storage class matches;
  \<^item> it returns the size error when the size differs, unless the claim has 10Gi and the
    caller requests the default size;
  \<^item> in that one case the claim is accepted like one of the requested size.
\<close>

theorem Create_existing_claim:
  assumes "snd got = None" and "pvc_Name (fst got) \<noteq> []"
    and "pvc_Requests (fst got) ''storage'' = Some current"
    and "MustParse deps (dev_PersistentVolumeSize d) = Some wanted"
  shows
    "(current = wanted \<and> storageClassMatches (fst got) d \<longrightarrow>
        Create deps d got created = (None, [GetClaim (pvc_Name (translatePVC deps d))]))
     \<and> (current \<noteq> wanted \<and>
         \<not> (current = tenGi \<and> dev_PersistentVolumeSize d = OktetoDefaultPVSize deps) \<longrightarrow>
        Create deps d got created =
          (Some (sizeMismatchError (QuantityString deps current) (dev_PersistentVolumeSize d)),
           [GetClaim (pvc_Name (translatePVC deps d))]))
     \<and> (current \<noteq> wanted \<and> current = tenGi \<and>
         dev_PersistentVolumeSize d = OktetoDefaultPVSize deps \<and>
         storageClassMatches (fst got) d \<longrightarrow>
        Create deps d got created = (None, [GetClaim (pvc_Name (translatePVC deps d))]))"
  using assms
  by (auto simp: Create_def getFailure_def checkPVCValues_def checkStorageClass_def
      storageClassMatches_def Let_def)

theorem Create_existing_claim_witness:
  "Create demoDeps demoDev (claimOf (2 * gi), None) None = (None, [GetClaim ''okteto-api''])
   \<and> Create demoDeps demoDev (claimOf (10 * gi), None) None = (None, [GetClaim ''okteto-api''])
   \<and> Create demoDeps demoDev (claimOf (5 * gi), None) None =
       (Some (sizeMismatchError ''5Gi'' ''2Gi''), [GetClaim ''okteto-api''])"
  using Create_existing_claim [of "(claimOf (2 * gi), None)" "2 * gi" demoDeps demoDev "2 * gi" None]
    Create_existing_claim [of "(claimOf (10 * gi), None)" "10 * gi" demoDeps demoDev "2 * gi" None]
    Create_existing_claim [of "(claimOf (5 * gi), None)" "5 * gi" demoDeps demoDev "2 * gi" None]
  by (simp add: claimOf_def demoDeps_def demoDev_def gi_def tenGi_def storageClassMatches_def)

section \<open>Destroying a volume claim (C5)\<close>





section \<open>Waiting for the pods of a stack (C6)\<close>

text \<open>
  C6, as the specification states it, fails: the error of the timeout is a fixed sentence
  that holds neither 300 nor any other number. Here a pod is still listed at 300 seconds.
\<close>

theorem waitForPodsToBeDestroyed_message_without_bound:
  "waitForPodsToBeDestroyed 0 [\<lparr>pr_Now = 300 * second, pr_Listed = Inr [pendingDemoPod]\<rparr>]
     = Returned (Some (Errorf takingTooLong))
   \<and> \<not> contains takingTooLong ''300''
   \<and> \<not> list_ex (\<lambda>c. c \<in> set ''0123456789'') takingTooLong"
  by (simp add: waitForPodsToBeDestroyed_def podsTimeout_def takingTooLong_def)

lemma podsLoop_podsRemain:
  "list_all (podsRemain timeout) pre \<Longrightarrow> podsLoop timeout (pre @ rs) = podsLoop timeout rs"
  by (induction pre) (auto simp: podsRemain_def split: sum.splits)

lemma takingTooLong_names_no_bound: "\<not> contains takingTooLong ''300''"
  by (simp add: takingTooLong_def)

text \<open>
  C6, amended: when pods of the stack are still listed in every round before 300 seconds
  have passed, the round that starts at or after 300 seconds returns the error "kubernetes
  is taking too long to destroy your stack. Please check for errors and try again", which
  does not name the bound.
\<close>

theorem waitForPodsToBeDestroyed_timeout:
  assumes "list_all (podsRemain (start + 300 * second)) pre"
    and "start + 300 * second \<le> pr_Now r"
  shows "waitForPodsToBeDestroyed start (pre @ r # rs) = Returned (Some (Errorf takingTooLong))
         \<and> \<not> contains takingTooLong ''300''"
  using podsLoop_podsRemain [of "start + 300 * second" pre "r # rs"] assms
    takingTooLong_names_no_bound
  by (simp add: waitForPodsToBeDestroyed_def podsTimeout_def)

theorem waitForPodsToBeDestroyed_timeout_witness:
  "waitForPodsToBeDestroyed 0
     [\<lparr>pr_Now = 100 * millisecond, pr_Listed = Inr [pendingDemoPod]\<rparr>,
      \<lparr>pr_Now = 300 * second, pr_Listed = Inr [pendingDemoPod]\<rparr>]
     = Returned (Some (Errorf takingTooLong))"
proof -
  have pre: "list_all (podsRemain (0 + 300 * second))
               [\<lparr>pr_Now = 100 * millisecond, pr_Listed = Inr [pendingDemoPod]\<rparr>]"
    by (simp add: podsRemain_def second_def millisecond_def)
  have late: "0 + 300 * second
                \<le> pr_Now \<lparr>pr_Now = 300 * second, pr_Listed = Inr [pendingDemoPod]\<rparr>"
    by simp
  show ?thesis
    using waitForPodsToBeDestroyed_timeout [OF pre late, of "[]"] by simp
qed

section \<open>Waiting for the development container (C7, C10)\<close>

lemma Killing_not_terminal: "''Killing'' \<notin> set terminalReasons"
  by (simp add: terminalReasons_def)

lemma Pulling_not_terminal: "''Pulling'' \<notin> set terminalReasons"
  by (simp add: terminalReasons_def)

text \<open>
  What the loop does with the events of the readiness scenarios, whatever the watcher has
  seen before and whatever \<^verbatim>\<open>fmt\<close> renders:
  \<^item> a \<open>Pulling\<close> event followed by the pod in phase \<open>Running\<close> ends the wait with
    success;
  \<^item> an event with a terminal reason whose message does not contain "pod has unbound
    immediate PersistentVolumeClaims" ends the wait with the error whose text is what
    \<^verbatim>\<open>fmt\<close> renders of the message taken as a format;
  \<^item> an event with a terminal reason whose message contains it only moves the resource
    version, and the wait goes on with what comes next.
\<close>

lemma watchLoop_events:
  "(ev_Reason e = ''Pulling'' \<and> pod_Phase p = PodRunning \<longrightarrow>
      fst (watchLoop sprintf w (Event e # PodObject p # rs)) = Returned None)
   \<and> (ev_Reason e \<in> set terminalReasons \<and> \<not> contains (ev_Message e) unboundClaims \<longrightarrow>
      fst (watchLoop sprintf w (Event e # rs))
        = Returned (Some (Errorf (sprintf (ev_Message e)))))
   \<and> (ev_Reason e \<in> set terminalReasons \<and> contains (ev_Message e) unboundClaims \<longrightarrow>
      watchLoop sprintf w (Event e # rs)
        = watchLoop sprintf (w\<lparr>w_ResourceVersion := ev_ResourceVersion e\<rparr>) rs)"
  using Pulling_not_terminal by (auto simp: Let_def)

lemma watchLoop_events_examples:
  "fst (watchLoop demoSprintf demoWatch
          [Event (demoEvent ''Pulling'' ''Pulling image nginx''), PodObject attachedDemoPod])
     = Returned None
   \<and> fst (watchLoop demoSprintf demoWatch
          [Event (demoEvent ''Failed'' ''Error: ImagePullBackOff'')])
     = Returned (Some (Errorf ''Error: ImagePullBackOff''))
   \<and> fst (watchLoop demoSprintf demoWatch
          [Event (demoEvent ''FailedScheduling''
             ''0/3 nodes are available: pod has unbound immediate PersistentVolumeClaims.''),
           PodObject attachedDemoPod])
     = Returned None"
  using watchLoop_events [of "demoEvent ''Pulling'' ''Pulling image nginx''" attachedDemoPod
          demoSprintf demoWatch "[]"]
    watchLoop_events [of "demoEvent ''Failed'' ''Error: ImagePullBackOff''" _
          demoSprintf demoWatch "[]"]
    watchLoop_events [of "demoEvent ''FailedScheduling''
             ''0/3 nodes are available: pod has unbound immediate PersistentVolumeClaims.''" _
          demoSprintf demoWatch "[PodObject attachedDemoPod]"]
  by (simp add: demoEvent_def attachedDemoPod_def PodRunning_def terminalReasons_def
      unboundClaims_def demoSprintf_def percentMessage_def)

text \<open>
  C7: the claim says that a terminal event ends the wait with a failure that carries the
  event's message. The code passes the message to \<^verbatim>\<open>fmt.Errorf\<close> as the format, so
  a message with a percent sign is rendered, not carried. Here the event \<open>Failed\<close> has
  the message "failed to authorize: scope=repository%3Alibrary", which does not contain
  the benign text, and the wait ends with the failure "failed to authorize:
  scope=repository%!A(MISSING)library", which is not the message.
\<close>

theorem watchLoop_renders_message_as_format:
  "fst (watchLoop demoSprintf demoWatch [Event (demoEvent ''Failed'' percentMessage)])
     = Returned (Some (Errorf percentRendered))
   \<and> ev_Reason (demoEvent ''Failed'' percentMessage) \<in> set terminalReasons
   \<and> \<not> contains percentMessage unboundClaims
   \<and> percentRendered \<noteq> percentMessage"
  by (simp add: demoEvent_def terminalReasons_def unboundClaims_def demoSprintf_def
      percentMessage_def percentRendered_def)

text \<open>
  C10: a \<open>Killing\<close> event ends the wait with the error that the pod was deleted,
  whatever was seen before and whatever follows; \<open>Killing\<close> is not one of the terminal
  reasons; and it does so after a pod object that is not running and bears no deletion
  timestamp.
\<close>

theorem watchLoop_Killing:
  "ev_Reason e = ''Killing'' \<Longrightarrow>
     fst (watchLoop sprintf w (Event e # rs)) = Returned (Some ErrDevPodDeleted)
     \<and> ''Killing'' \<notin> set terminalReasons
     \<and> (pod_Phase p \<noteq> PodRunning \<and> pod_DeletionTimestamp p = None \<longrightarrow>
          fst (watchLoop sprintf w (PodObject p # Event e # rs))
            = Returned (Some ErrDevPodDeleted))"
  using Killing_not_terminal by (simp add: Let_def)

theorem watchLoop_Killing_witness:
  "fst (watchLoop demoSprintf demoWatch
          [PodObject pendingDemoPod, Event (demoEvent ''Killing'' ''Stopping container api''),
           PodObject attachedDemoPod])
     = Returned (Some ErrDevPodDeleted)"
  using watchLoop_Killing [of "demoEvent ''Killing'' ''Stopping container api''" demoSprintf
          demoWatch "[PodObject attachedDemoPod]" pendingDemoPod]
  by (simp add: demoEvent_def pendingDemoPod_def PodRunning_def)

section \<open>The translation of a deployment (C1, C9)\<close>

subsection \<open>Setters and metadata\<close>

lemma deployment_setters:
  "d_ObjectMeta (set_d_Status st d) = d_ObjectMeta d"
  "d_Spec (set_d_Status st d) = d_Spec d"
  "d_Status (set_d_Status st d) = st"
  "d_ObjectMeta (set_d_ObjectMeta m d) = m"
  "d_Spec (set_d_ObjectMeta m d) = d_Spec d"
  "d_Status (set_d_ObjectMeta m d) = d_Status d"
  "d_ObjectMeta (set_d_Replicas n d) = d_ObjectMeta d"
  "d_Status (set_d_Replicas n d) = d_Status d"
  "d_ObjectMeta (set_templateMeta m d) = d_ObjectMeta d"
  "d_Status (set_templateMeta m d) = d_Status d"
  "d_ObjectMeta (set_templateSpec sp d) = d_ObjectMeta d"
  "d_Status (set_templateSpec sp d) = d_Status d"
  by (simp_all add: set_d_Status_def set_d_ObjectMeta_def set_d_Replicas_def
      set_templateMeta_def set_templateSpec_def)

lemma template_setters:
  "templateSpec (set_d_Status st d) = templateSpec d"
  "templateSpec (set_d_ObjectMeta m d) = templateSpec d"
  "templateSpec (set_d_Replicas n d) = templateSpec d"
  "templateSpec (set_templateMeta m d) = templateSpec d"
  "templateSpec (set_templateSpec sp d) = sp"
  "templateMeta (set_d_Status st d) = templateMeta d"
  "templateMeta (set_d_ObjectMeta m d) = templateMeta d"
  "templateMeta (set_d_Replicas n d) = templateMeta d"
  "templateMeta (set_templateMeta m d) = m"
  "templateMeta (set_templateSpec sp d) = templateMeta d"
  by (simp_all add: set_d_Status_def set_d_ObjectMeta_def set_d_Replicas_def
      set_templateMeta_def set_templateSpec_def templateSpec_def templateMeta_def)

lemma set_templateSpec_twice:
  "set_templateSpec sp (set_templateSpec sp' d) = set_templateSpec sp d"
  by (simp add: set_templateSpec_def)

lemma meta_setters:
  "om_Name (set_om_Labels l m) = om_Name m"
  "om_Name (set_om_Annotations a m) = om_Name m"
  "om_Annotations (set_om_Labels l m) = om_Annotations m"
  "om_Annotations (set_om_Annotations a m) = a"
  "om_Labels (set_om_Labels l m) = l"
  "om_Labels (set_om_Annotations a m) = om_Labels m"
  by (simp_all add: set_om_Labels_def set_om_Annotations_def)

lemma meta_functions:
  "om_Name (setAnnotation m k v) = om_Name m"
  "om_Name (setLabel m k x) = om_Name m"
  "om_Name (TranslateDevAnnotations m a) = om_Name m"
  "om_Annotations (setAnnotation m k v) = (om_Annotations m)(k \<mapsto> v)"
  "om_Annotations (setLabel m k x) = om_Annotations m"
  "om_Annotations (TranslateDevAnnotations m a) = om_Annotations m ++ a"
  by (simp_all add: setAnnotation_def setLabel_def TranslateDevAnnotations_def meta_setters)

subsection \<open>The resolution of containers\<close>

lemma findContainer_Some:
  "findContainer name cs = Some i \<Longrightarrow> i < length cs \<and> c_Name (cs ! i) = name"
  by (induction cs arbitrary: i) (auto split: if_splits)

lemma findContainer_names:
  "map c_Name cs = map c_Name cs' \<Longrightarrow> findContainer name cs = findContainer name cs'"
proof (induction cs arbitrary: cs')
  case Nil
  then show ?case by simp
next
  case (Cons c cs)
  then obtain c' cs'' where cs': "cs' = c' # cs''" by (cases cs') auto
  with Cons.prems have "c_Name c = c_Name c'" "map c_Name cs = map c_Name cs''" by simp_all
  with Cons.IH [of cs''] cs' show ?case by simp
qed

lemma GetDevContainer_names:
  assumes "map c_Name (ps_Containers sp) = map c_Name (ps_Containers sp')"
  shows "GetDevContainer sp name = GetDevContainer sp' name"
proof -
  have "(ps_Containers sp = []) = (ps_Containers sp' = [])"
    using assms by (metis map_is_Nil_conv)
  then show ?thesis
    using findContainer_names [OF assms, of name] by (simp add: GetDevContainer_def)
qed

lemma GetDevContainer_Some:
  "GetDevContainer sp name = Inr (Some i) \<Longrightarrow> i < length (ps_Containers sp)"
  by (auto simp: GetDevContainer_def split: if_splits dest: findContainer_Some)

lemma GetDevContainer_resolved:
  assumes "GetDevContainer sp name = Inr (Some i)"
  shows "GetDevContainer sp (c_Name (ps_Containers sp ! i)) = Inr (Some i)"
proof (cases "name = []")
  case True
  with assms have i: "i = 0" and ne: "ps_Containers sp \<noteq> []"
    by (auto simp: GetDevContainer_def split: if_splits)
  then obtain c cs where cs: "ps_Containers sp = c # cs" by (cases "ps_Containers sp") auto
  show ?thesis using i cs by (simp add: GetDevContainer_def)
next
  case False
  with assms have "findContainer name (ps_Containers sp) = Some i"
    by (simp add: GetDevContainer_def)
  with findContainer_Some [OF this] False show ?thesis
    by (simp add: GetDevContainer_def)
qed

lemma resolveContainers_names:
  assumes "map c_Name (ps_Containers sp) = map c_Name (ps_Containers sp')"
  shows "resolveContainers dname sp rules = resolveContainers dname sp' rules"
proof (induction rules)
  case Nil
  show ?case by simp
next
  case (Cons r rs)
  have g: "GetDevContainer sp' (r_Container r) = GetDevContainer sp (r_Container r)"
    using GetDevContainer_names [OF assms] by simp
  have n: "\<And>i. i < length (ps_Containers sp) \<Longrightarrow>
             c_Name (ps_Containers sp' ! i) = c_Name (ps_Containers sp ! i)"
    using assms by (metis length_map nth_map)
  show ?case
  proof (cases "GetDevContainer sp (r_Container r)")
    case (Inl e)
    then show ?thesis using g by simp
  next
    case (Inr oi)
    show ?thesis
    proof (cases oi)
      case None
      then show ?thesis using g Inr by simp
    next
      case (Some i)
      have "i < length (ps_Containers sp)" using GetDevContainer_Some Inr Some by blast
      then show ?thesis using g Inr Some Cons.IH n by simp
    qed
  qed
qed

lemma resolveContainers_resolved:
  "resolveContainers dname sp rules = (None, rules') \<Longrightarrow> list_all (resolvedIn sp) rules'"
proof (induction rules arbitrary: rules')
  case Nil
  then show ?case by simp
next
  case (Cons r rs)
  from Cons.prems obtain i where g: "GetDevContainer sp (r_Container r) = Inr (Some i)"
    by (auto split: sum.splits option.splits)
  obtain e rs' where rec: "resolveContainers dname sp rs = (e, rs')"
    by (cases "resolveContainers dname sp rs") auto
  with Cons.prems g have e: "e = None"
    and r': "rules' = r\<lparr>r_Container := c_Name (ps_Containers sp ! i)\<rparr> # rs'"
    by simp_all
  have "resolvedIn sp (r\<lparr>r_Container := c_Name (ps_Containers sp ! i)\<rparr>)"
    using GetDevContainer_resolved [OF g] by (simp add: resolvedIn_def)
  with Cons.IH [of rs'] rec e r' show ?case by simp
qed

lemma resolveContainers_fixed:
  "list_all (resolvedIn sp) rules \<Longrightarrow> resolveContainers dname sp rules = (None, rules)"
  by (induction rules) (auto simp: resolvedIn_def split: sum.splits option.splits)

subsection \<open>The dev container keeps its name\<close>

lemma container_functions_name:
  "c_Name (TranslateProbes c h) = c_Name c"
  "c_Name (TranslateResources c res) = c_Name c"
  "c_Name (TranslateEnvVars c r) = c_Name c"
  "c_Name (TranslateVolumeMounts c r) = c_Name c"
  "c_Name (TranslateContainerSecurityContext c s) = c_Name c"
  "c_Name (TranslateOktetoBinVolumeMounts c) = c_Name c"
  by (simp_all add: TranslateProbes_def TranslateResources_def TranslateEnvVars_def
      TranslateVolumeMounts_def TranslateContainerSecurityContext_def
      TranslateOktetoBinVolumeMounts_def Let_def split: option.splits)

lemma rule_fields_ignored:
  "TranslateEnvVars c (r\<lparr>r_InitContainer := ic\<rparr>) = TranslateEnvVars c r"
  "TranslateEnvVars c (r\<lparr>r_Image := img\<rparr>) = TranslateEnvVars c r"
  "TranslateVolumeMounts c (r\<lparr>r_InitContainer := ic\<rparr>) = TranslateVolumeMounts c r"
  "TranslateVolumeMounts c (r\<lparr>r_Image := img\<rparr>) = TranslateVolumeMounts c r"
  by (simp_all add: TranslateEnvVars_def TranslateVolumeMounts_def Let_def)

lemma TranslateDevContainer_Inr:
  assumes "TranslateDevContainer c r = Inr (c', r')"
  shows "r_Probes r \<noteq> None"
    and "r' = r\<lparr>r_Image := (if r_Image r = [] then c_Image c else r_Image r)\<rparr>"
proof -
  show p: "r_Probes r \<noteq> None"
  proof
    assume "r_Probes r = None"
    then have "TranslateDevContainer c r
                 = Inl (Panic ''invalid memory address or nil pointer dereference'')"
      by (simp add: TranslateDevContainer_def Let_def)
    with assms show False by simp
  qed
  then obtain h where h: "r_Probes r = Some h" by auto
  show "r' = r\<lparr>r_Image := (if r_Image r = [] then c_Image c else r_Image r)\<rparr>"
  proof (cases "r_Image r = []")
    case True
    then have "snd (projr (TranslateDevContainer c r)) = r\<lparr>r_Image := c_Image c\<rparr>"
      using h by (simp add: TranslateDevContainer_def Let_def)
    with assms True show ?thesis by simp
  next
    case False
    then have "snd (projr (TranslateDevContainer c r)) = r"
      using h by (simp add: TranslateDevContainer_def Let_def)
    with assms False show ?thesis by simp
  qed
qed

lemma TranslateDevContainer_name:
  assumes "TranslateDevContainer c r = Inr (c', r')"
  shows "c_Name c' = c_Name c"
proof -
  from TranslateDevContainer_Inr(1) [OF assms] obtain h where h: "r_Probes r = Some h"
    by auto
  have "c_Name (fst (projr (TranslateDevContainer c r))) = c_Name c"
    using h by (simp add: TranslateDevContainer_def Let_def container_functions_name)
  with assms show ?thesis by simp
qed

lemmas TranslateDevContainer_result =
  TranslateDevContainer_name TranslateDevContainer_Inr(2)

lemma TranslateDevContainer_again:
  assumes "TranslateDevContainer c r = Inr (c', r')"
  shows "TranslateDevContainer c (r'\<lparr>r_InitContainer := ic\<rparr>)
           = Inr (c', r'\<lparr>r_InitContainer := ic\<rparr>)"
proof -
  from TranslateDevContainer_Inr(1) [OF assms] obtain h where h: "r_Probes r = Some h"
    by auto
  note r' = TranslateDevContainer_Inr(2) [OF assms]
  show ?thesis
  proof (cases "r_Image r = []")
    case True
    have "TranslateDevContainer c (r\<lparr>r_Image := c_Image c, r_InitContainer := ic\<rparr>)
            = Inr (fst (projr (TranslateDevContainer c r)),
                   r\<lparr>r_Image := c_Image c, r_InitContainer := ic\<rparr>)"
      using h True by (simp add: TranslateDevContainer_def Let_def rule_fields_ignored)
    with assms r' True show ?thesis by simp
  next
    case False
    have "TranslateDevContainer c (r\<lparr>r_InitContainer := ic\<rparr>)
            = Inr (fst (projr (TranslateDevContainer c r)), r\<lparr>r_InitContainer := ic\<rparr>)"
      using h False by (simp add: TranslateDevContainer_def Let_def rule_fields_ignored)
    with assms r' False show ?thesis by simp
  qed
qed

lemma setDefault_defined:
  "setDefaultResourceValueIfNotPresent m k v k \<noteq> None"
  "m k' \<noteq> None \<Longrightarrow> setDefaultResourceValueIfNotPresent m k v k' \<noteq> None"
  by (auto simp: setDefaultResourceValueIfNotPresent_def split: option.splits)

lemma setDefault_present:
  "m k \<noteq> None \<Longrightarrow> setDefaultResourceValueIfNotPresent m k v = m"
  by (auto simp: setDefaultResourceValueIfNotPresent_def split: option.splits)

lemma TranslateInitContainer_again:
  "TranslateInitContainer (TranslateInitContainer ic) = TranslateInitContainer ic"
  by (simp add: TranslateInitContainer_def setDefault_defined setDefault_present)

subsection \<open>The pod keeps its containers\<close>

lemma addOktetoVolumes_containers:
  "ps_Containers (addOktetoVolumes r vs sp) = ps_Containers sp"
  by (induction vs arbitrary: sp) simp_all

lemma pod_functions_containers:
  "ps_Containers (TranslateOktetoVolumes sp r) = ps_Containers sp"
  "ps_Containers (TranslatePodSecurityContext sp s) = ps_Containers sp"
  "ps_Containers (TranslatePodServiceAccount sp sa) = ps_Containers sp"
  "ps_Containers (TranslateOktetoDevSecret sp n secs) = ps_Containers sp"
  "ps_Containers (TranslateOktetoInitBinContainer ic sp) = ps_Containers sp"
  "ps_Containers (TranslateOktetoBinVolume sp) = ps_Containers sp"
  "ps_Containers (TranslateDevTolerations sp tols) = ps_Containers sp"
  "ps_Containers (TranslateOktetoSyncSecret sp n) = ps_Containers sp"
  "ps_Containers (TranslatePodAffinity sp n) = ps_Containers sp"
  by (simp_all add: TranslateOktetoVolumes_def addOktetoVolumes_containers
      TranslatePodSecurityContext_def TranslatePodServiceAccount_def
      TranslateOktetoDevSecret_def TranslateOktetoInitBinContainer_def
      TranslateOktetoBinVolume_def TranslateDevTolerations_def TranslateOktetoSyncSecret_def
      TranslatePodAffinity_def Let_def split: option.splits)

lemma names_update:
  "i < length cs \<Longrightarrow> c_Name c = c_Name (cs ! i) \<Longrightarrow> map c_Name (cs[i := c]) = map c_Name cs"
  by (simp add: map_update list_update_same_conv)

lemma names_update':
  "c_Name c = c_Name (cs ! i) \<Longrightarrow> map c_Name (cs[i := c]) = map c_Name cs"
  by (cases "i < length cs") (simp_all add: names_update list_update_beyond)

lemma translateRule_result:
  assumes "translateRule dname tname sp r = Inr (sp', r')"
  shows "\<exists>i. GetDevContainer sp (r_Container r) = Inr (Some i) \<and> r' = ruleAfter sp i r"
    and "map c_Name (ps_Containers sp') = map c_Name (ps_Containers sp)"
proof -
  from assms obtain i where g: "GetDevContainer sp (r_Container r) = Inr (Some i)"
    by (auto simp: translateRule_def split: sum.splits option.splits)
  from assms g obtain c r1 where
    d: "TranslateDevContainer (ps_Containers sp ! i) r = Inr (c, r1)"
    by (auto simp: translateRule_def split: sum.splits)
  note res = TranslateDevContainer_result [OF d]
  from assms g d show "\<exists>i. GetDevContainer sp (r_Container r) = Inr (Some i) \<and> r' = ruleAfter sp i r"
    using res(2) by (auto simp: translateRule_def Let_def ruleAfter_def split: if_splits)
  have i: "i < length (ps_Containers sp)" using GetDevContainer_Some [OF g] .
  from assms g d show "map c_Name (ps_Containers sp') = map c_Name (ps_Containers sp)"
    using res(1) i
    by (auto simp: translateRule_def Let_def pod_functions_containers names_update'
        container_functions_name split: if_splits)
qed

lemma translateRule_again:
  assumes "translateRule dname tname sp r = Inr (sp', r')"
  shows "translateRule dname tname sp r' = Inr (sp', r')"
proof -
  from assms obtain i where g: "GetDevContainer sp (r_Container r) = Inr (Some i)"
    by (auto simp: translateRule_def split: sum.splits option.splits)
  from assms g obtain c r1 where
    d: "TranslateDevContainer (ps_Containers sp ! i) r = Inr (c, r1)"
    by (auto simp: translateRule_def split: sum.splits)
  have r': "r' = r1\<lparr>r_InitContainer := TranslateInitContainer (r_InitContainer r1)\<rparr>"
    using assms g d by (auto simp: translateRule_def Let_def split: if_splits)
  have c: "r_Container r' = r_Container r"
    using r' TranslateDevContainer_result(2) [OF d] by simp
  have d': "TranslateDevContainer (ps_Containers sp ! i) r' = Inr (c, r')"
    unfolding r' by (rule TranslateDevContainer_again [OF d])
  have ic: "r'\<lparr>r_InitContainer := TranslateInitContainer (r_InitContainer r')\<rparr> = r'"
    unfolding r' by (simp add: TranslateInitContainer_again)
  show ?thesis
    using assms
    unfolding translateRule_def c g d d' sum.case option.case prod.case ic r' [symmetric]
    by simp
qed

subsection \<open>The loop over the rules\<close>

lemma translateRules_names:
  "map c_Name (ps_Containers (fst (snd (translateRules dname tname sp rules))))
     = map c_Name (ps_Containers sp)"
proof (induction rules arbitrary: sp)
  case Nil
  show ?case by simp
next
  case (Cons r rs)
  show ?case
  proof (cases "translateRule dname tname sp r")
    case (Inl e)
    then show ?thesis by simp
  next
    case (Inr res)
    obtain sp' r' where res: "res = (sp', r')" by (cases res) auto
    have n: "map c_Name (ps_Containers sp') = map c_Name (ps_Containers sp)"
      using translateRule_result(2) Inr res by blast
    show ?thesis
      using Inr res n Cons.IH [of sp'] by (simp add: split_beta)
  qed
qed

lemma translateRules_again:
  "translateRules dname tname sp rules = (None, sp', rules') \<Longrightarrow>
   translateRules dname tname sp rules' = (None, sp', rules')"
proof (induction rules arbitrary: sp sp' rules')
  case Nil
  then show ?case by simp
next
  case (Cons r rs)
  from Cons.prems obtain sp1 r1 where one: "translateRule dname tname sp r = Inr (sp1, r1)"
    by (auto split: sum.splits)
  obtain e sp2 rs2 where rest: "translateRules dname tname sp1 rs = (e, sp2, rs2)"
    by (cases "translateRules dname tname sp1 rs") auto
  from Cons.prems one rest have e: "e = None" and sp': "sp' = sp2" and r': "rules' = r1 # rs2"
    by simp_all
  have "translateRules dname tname sp1 rs2 = (None, sp2, rs2)"
    using Cons.IH rest e by blast
  then show ?case
    using translateRule_again [OF one] sp' r' by simp
qed

lemma translateRules_containers:
  "translateRules dname tname sp rules = (e, sp', rules') \<Longrightarrow>
   map r_Container rules' = map r_Container rules"
proof (induction rules arbitrary: sp e sp' rules')
  case Nil
  then show ?case by simp
next
  case (Cons r rs)
  show ?case
  proof (cases "translateRule dname tname sp r")
    case (Inl err)
    with Cons.prems show ?thesis by auto
  next
    case (Inr res)
    obtain sp1 r1 where res: "res = (sp1, r1)" by (cases res) auto
    obtain e2 sp2 rs2 where rest: "translateRules dname tname sp1 rs = (e2, sp2, rs2)"
      by (cases "translateRules dname tname sp1 rs") auto
    have "r_Container r1 = r_Container r"
      using translateRule_result(1) [of dname tname sp r sp1 r1] Inr res
      by (auto simp: ruleAfter_def)
    moreover have "map r_Container rs2 = map r_Container rs"
      using Cons.IH rest by blast
    ultimately show ?thesis using Cons.prems Inr res rest by auto
  qed
qed

lemma resolvedIn_cong:
  "map c_Name (ps_Containers sp) = map c_Name (ps_Containers sp') \<Longrightarrow>
   r_Container r = r_Container r' \<Longrightarrow> resolvedIn sp r = resolvedIn sp' r'"
proof -
  assume n: "map c_Name (ps_Containers sp) = map c_Name (ps_Containers sp')"
    and c: "r_Container r = r_Container r'"
  have g: "GetDevContainer sp (r_Container r) = GetDevContainer sp' (r_Container r')"
    using GetDevContainer_names [OF n] c by simp
  show ?thesis
  proof (cases "GetDevContainer sp' (r_Container r')")
    case (Inl e)
    then show ?thesis using g by (simp add: resolvedIn_def)
  next
    case (Inr oi)
    show ?thesis
    proof (cases oi)
      case None
      then show ?thesis using g Inr by (simp add: resolvedIn_def)
    next
      case (Some i)
      then have "i < length (ps_Containers sp')" using GetDevContainer_Some Inr by blast
      then have "c_Name (ps_Containers sp ! i) = c_Name (ps_Containers sp' ! i)"
        using n by (metis length_map nth_map)
      then show ?thesis using g Inr Some c by (simp add: resolvedIn_def)
    qed
  qed
qed

lemma list_all_resolvedIn_cong:
  assumes "map c_Name (ps_Containers sp) = map c_Name (ps_Containers sp')"
    and "map r_Container rs = map r_Container rs'"
  shows "list_all (resolvedIn sp) rs = list_all (resolvedIn sp') rs'"
  using assms(2)
proof (induction rs arbitrary: rs')
  case Nil
  then show ?case by simp
next
  case (Cons r rs)
  then obtain r' rs'' where rs': "rs' = r' # rs''" by (cases rs') auto
  with Cons.prems have "r_Container r = r_Container r'"
    "map r_Container rs = map r_Container rs''" by simp_all
  then show ?case
    using Cons.IH [of rs''] resolvedIn_cong [OF assms(1), of r r'] rs' by simp
qed

subsection \<open>The statements before the loop\<close>

lemma commonTranslation_fields:
  "t_Rules (commonTranslation t) = t_Rules t"
  "t_Name (commonTranslation t) = t_Name t"
  "t_Interactive (commonTranslation t) = t_Interactive t"
  "t_Annotations (commonTranslation t) = t_Annotations t"
  "t_Tolerations (commonTranslation t) = t_Tolerations t"
  "templateSpec (t_Deployment (commonTranslation t)) = templateSpec (t_Deployment t)"
  "om_Name (d_ObjectMeta (t_Deployment (commonTranslation t)))
     = om_Name (d_ObjectMeta (t_Deployment t))"
  "om_Annotations (d_ObjectMeta (t_Deployment (commonTranslation t)))
     = (om_Annotations (d_ObjectMeta (t_Deployment t)) ++ t_Annotations t)
         (oktetoVersionAnnotation \<mapsto> Str Version)"
  by (simp_all add: commonTranslation_def Let_def deployment_setters template_setters
      meta_functions)

lemma commonTranslation_rules:
  "commonTranslation (t\<lparr>t_Rules := rs\<rparr>) = (commonTranslation t)\<lparr>t_Rules := rs\<rparr>"
  by (simp add: commonTranslation_def Let_def)

lemma commonTranslation_only_deployment:
  "commonTranslation t = t\<lparr>t_Deployment := t_Deployment (commonTranslation t)\<rparr>"
  by (simp add: commonTranslation_def Let_def)

lemma stampOriginal_fields:
  "t_Rules (stampOriginal t) = t_Rules t"
  "t_Name (stampOriginal t) = t_Name t"
  "t_Interactive (stampOriginal t) = t_Interactive t"
  "t_Annotations (stampOriginal t) = t_Annotations t"
  "t_Tolerations (stampOriginal t) = t_Tolerations t"
  "templateSpec (t_Deployment (stampOriginal t)) = templateSpec (t_Deployment t)"
  "om_Name (d_ObjectMeta (t_Deployment (stampOriginal t)))
     = om_Name (d_ObjectMeta (t_Deployment t))"
  "om_Annotations (d_ObjectMeta (t_Deployment (stampOriginal t)))
     = (om_Annotations (d_ObjectMeta (t_Deployment t)))
         (oktetoDeploymentAnnotation \<mapsto> Json (set_d_Status emptyStatus (t_Deployment t)))"
  by (simp_all add: stampOriginal_def Let_def deployment_setters template_setters
      meta_functions)

lemma stampOriginal_rules:
  "stampOriginal (t\<lparr>t_Rules := rs\<rparr>) = (stampOriginal t)\<lparr>t_Rules := rs\<rparr>"
  by (simp add: stampOriginal_def Let_def)

lemma stampOriginal_only_deployment:
  "stampOriginal t = t\<lparr>t_Deployment := t_Deployment (stampOriginal t)\<rparr>"
  by (simp add: stampOriginal_def Let_def)

lemma translateTemplate_fields:
  "t_Rules (translateTemplate t) = t_Rules t"
  "t_Name (translateTemplate t) = t_Name t"
  "t_Interactive (translateTemplate t) = t_Interactive t"
  "t_Annotations (translateTemplate t) = t_Annotations t"
  "t_Tolerations (translateTemplate t) = t_Tolerations t"
  "d_ObjectMeta (t_Deployment (translateTemplate t)) = d_ObjectMeta (t_Deployment t)"
  by (simp_all add: translateTemplate_def Let_def deployment_setters)

lemma translateTemplate_names:
  "map c_Name (ps_Containers (templateSpec (t_Deployment (translateTemplate t))))
     = map c_Name (ps_Containers (templateSpec (t_Deployment t)))"
  by (simp add: translateTemplate_def Let_def template_setters pod_functions_containers)

lemma translateTemplate_rules:
  "translateTemplate (t\<lparr>t_Rules := rs\<rparr>) = (translateTemplate t)\<lparr>t_Rules := rs\<rparr>"
  by (simp add: translateTemplate_def Let_def)

lemma translateTemplate_only_deployment:
  "translateTemplate t = t\<lparr>t_Deployment := t_Deployment (translateTemplate t)\<rparr>"
  by (simp add: translateTemplate_def Let_def)

lemma clientPrepared_fields:
  "t_Rules (clientPrepared t) = t_Rules t"
  "t_Name (clientPrepared t) = t_Name t"
  "t_Interactive (clientPrepared t) = t_Interactive t"
  "t_Annotations (clientPrepared t) = t_Annotations t"
  "t_Tolerations (clientPrepared t) = t_Tolerations t"
  by (simp_all add: clientPrepared_def translateTemplate_fields commonTranslation_fields
      stampOriginal_fields)

lemma clientPrepared_rules:
  "clientPrepared (t\<lparr>t_Rules := rs\<rparr>) = (clientPrepared t)\<lparr>t_Rules := rs\<rparr>"
  by (simp add: clientPrepared_def translateTemplate_rules commonTranslation_rules
      stampOriginal_rules)

lemma clientPrepared_only_deployment:
  "clientPrepared t = t\<lparr>t_Deployment := t_Deployment (clientPrepared t)\<rparr>"
proof -
  let ?s = "stampOriginal t" and ?c = "commonTranslation (stampOriginal t)"
  have "clientPrepared t = ?c\<lparr>t_Deployment := t_Deployment (clientPrepared t)\<rparr>"
    unfolding clientPrepared_def by (rule translateTemplate_only_deployment)
  also have "?c = ?s\<lparr>t_Deployment := t_Deployment ?c\<rparr>"
    by (rule commonTranslation_only_deployment)
  also have "?s = t\<lparr>t_Deployment := t_Deployment ?s\<rparr>"
    by (rule stampOriginal_only_deployment)
  finally show ?thesis by simp
qed

lemma clientPrepared_names:
  "map c_Name (ps_Containers (templateSpec (t_Deployment (clientPrepared t))))
     = map c_Name (ps_Containers (templateSpec (t_Deployment t)))"
  by (simp add: clientPrepared_def translateTemplate_names commonTranslation_fields
      stampOriginal_fields)

lemma clientPrepared_name:
  "om_Name (d_ObjectMeta (t_Deployment (clientPrepared t)))
     = om_Name (d_ObjectMeta (t_Deployment t))"
  by (simp add: clientPrepared_def translateTemplate_fields commonTranslation_fields
      stampOriginal_fields)

lemma annotation_keys_differ: "oktetoDeploymentAnnotation \<noteq> oktetoVersionAnnotation"
  by (simp add: oktetoDeploymentAnnotation_def oktetoVersionAnnotation_def)

lemma clientPrepared_manifest:
  assumes "t_Annotations t oktetoDeploymentAnnotation = None"
  shows "om_Annotations (d_ObjectMeta (t_Deployment (clientPrepared t)))
           oktetoDeploymentAnnotation
         = Some (Json (set_d_Status emptyStatus (t_Deployment t)))"
  using assms annotation_keys_differ
  by (simp add: clientPrepared_def translateTemplate_fields commonTranslation_fields
      stampOriginal_fields map_add_def)

lemma set_d_Status_twice: "set_d_Status st (set_d_Status st' d) = set_d_Status st d"
  by (simp add: set_d_Status_def)

lemma stampOriginal_status:
  "stampOriginal (t\<lparr>t_Deployment := set_d_Status emptyStatus (t_Deployment t)\<rparr>)
     = stampOriginal t"
  by (simp add: stampOriginal_def set_d_Status_twice)

lemma clientPrepared_status:
  "clientPrepared (t\<lparr>t_Deployment := set_d_Status emptyStatus (t_Deployment t)\<rparr>)
     = clientPrepared t"
  by (simp add: clientPrepared_def stampOriginal_status)

lemma clientTranslation_unfold:
  "clientTranslation t =
     (case translateRules (om_Name (d_ObjectMeta (t_Deployment (clientPrepared t)))) (t_Name t)
             (templateSpec (t_Deployment (clientPrepared t))) (t_Rules t) of
        (e, sp, rules) \<Rightarrow>
          (e, (clientPrepared t)\<lparr>t_Deployment :=
                 set_templateSpec sp (t_Deployment (clientPrepared t)), t_Rules := rules\<rparr>))"
  by (simp add: clientTranslation_def Let_def clientPrepared_fields)

lemma clientTranslation_status:
  "clientTranslation (t\<lparr>t_Deployment := set_d_Status emptyStatus (t_Deployment t)\<rparr>)
     = clientTranslation t"
  by (simp add: clientTranslation_def clientPrepared_status)

lemma deleteRevision_fields:
  "templateSpec (deleteRevision d) = templateSpec d"
  "om_Name (d_ObjectMeta (deleteRevision d)) = om_Name (d_ObjectMeta d)"
  "d_Status (deleteRevision d) = d_Status d"
  by (simp_all add: deleteRevision_def template_setters deployment_setters meta_setters)

lemma deleteRevision_storedOriginal:
  "deleteRevision (storedOriginal d) = storedOriginal d"
  by (simp add: storedOriginal_def deleteRevision_def set_d_Status_def set_d_ObjectMeta_def
      set_om_Annotations_def)

lemma rules_deployment_swap:
  "t\<lparr>t_Rules := rs, t_Deployment := d\<rparr> = t\<lparr>t_Deployment := d, t_Rules := rs\<rparr>"
  by (cases t) simp

lemma translate_unstamped:
  assumes "\<not> (c \<and> ns \<and> env = [])"
    and "om_Annotations (d_ObjectMeta (t_Deployment t)) oktetoDeploymentAnnotation = None"
    and "resolveContainers (om_Name (d_ObjectMeta (t_Deployment t)))
           (templateSpec (t_Deployment t)) (t_Rules t) = (None, rules)"
  shows "translate staa env t c ns
           = clientTranslation (t\<lparr>t_Rules := rules, t_Deployment := deleteRevision (t_Deployment t)\<rparr>)"
  using assms by (auto simp: translate_def getAnnotation_def Let_def)

lemma translate_stamped:
  assumes "\<not> (c \<and> ns \<and> env = [])"
    and "om_Annotations (d_ObjectMeta (t_Deployment t)) oktetoDeploymentAnnotation
           = Some (Json d)"
    and "resolveContainers (om_Name (d_ObjectMeta (t_Deployment t)))
           (templateSpec (t_Deployment t)) (t_Rules t) = (None, rules)"
  shows "translate staa env t c ns
           = clientTranslation (t\<lparr>t_Rules := rules, t_Deployment := deleteRevision d\<rparr>)"
  using assms by (auto simp: translate_def getAnnotation_def Let_def)

lemma translate_resolves:
  assumes "translate staa env t c ns = (None, t1)"
  shows "fst (resolveContainers (om_Name (d_ObjectMeta (t_Deployment t)))
           (templateSpec (t_Deployment t)) (t_Rules t)) = None"
  using assms by (auto simp: translate_def split: prod.splits option.splits)

subsection \<open>Translating twice (C1)\<close>

text \<open>
  C1, as the specification states it, fails when the caller's annotations set the key of
  the reversibility annotation: the common translation writes the caller's annotations
  after the snapshot, so the translated deployment carries the caller's value under that
  key, and translating it again fails to decode the value. Here the first translation
  succeeds and the second returns the decoding error.
\<close>

theorem translate_clobbered_by_caller_annotation:
  "fst (translate noTranslationAnnotation [] clashingTranslation False False) = None
   \<and> fst (translate noTranslationAnnotation []
       (clashingTranslation\<lparr>t_Deployment :=
          t_Deployment (snd (translate noTranslationAnnotation [] clashingTranslation False False))\<rparr>)
       False False) = Some JsonSyntaxError"
  by code_simp

text \<open>
  C1, amended: on the path of \<^verbatim>\<open>translate\<close> that runs on the client, for every
  deployment that does not carry the reversibility annotation, every list of rules and
  every caller's annotations that do not set the key of that annotation, a translation
  that succeeds stamps the deployment with its stored original (revision and status
  cleared), and translating the result again gives the same result, with the rules as the
  caller wrote them and with the rules as the first translation left them alike.
\<close>

theorem translate_idempotent:
  assumes client: "\<not> (c \<and> isOktetoNamespace \<and> env = [])"
    and untranslated:
      "om_Annotations (d_ObjectMeta (t_Deployment t)) oktetoDeploymentAnnotation = None"
    and caller: "t_Annotations t oktetoDeploymentAnnotation = None"
    and first: "translate staa env t c isOktetoNamespace = (None, t1)"
  shows "om_Annotations (d_ObjectMeta (t_Deployment t1)) oktetoDeploymentAnnotation
           = Some (Json (storedOriginal (t_Deployment t)))
         \<and> translate staa env (t\<lparr>t_Deployment := t_Deployment t1\<rparr>) c isOktetoNamespace
             = (None, t1)
         \<and> translate staa env t1 c isOktetoNamespace = (None, t1)"
proof -
  let ?D = "t_Deployment t"
  let ?dn = "om_Name (d_ObjectMeta ?D)"
  let ?B = "storedOriginal ?D"
  obtain rs1 where res: "resolveContainers ?dn (templateSpec ?D) (t_Rules t) = (None, rs1)"
    using translate_resolves [OF first]
    by (cases "resolveContainers ?dn (templateSpec ?D) (t_Rules t)") auto
  let ?tB = "t\<lparr>t_Rules := rs1, t_Deployment := deleteRevision ?D\<rparr>"
  let ?P = "clientPrepared ?tB"
  have pass1: "clientTranslation ?tB = (None, t1)"
    using translate_unstamped [OF client untranslated res] first by simp
  obtain e sp4 rs' where loop:
    "translateRules (om_Name (d_ObjectMeta (t_Deployment ?P))) (t_Name ?tB)
       (templateSpec (t_Deployment ?P)) (t_Rules ?tB) = (e, sp4, rs')"
    using prod_cases3 by blast
  have e: "e = None"
    and t1: "t1 = ?P\<lparr>t_Deployment := set_templateSpec sp4 (t_Deployment ?P), t_Rules := rs'\<rparr>"
    using pass1 loop unfolding clientTranslation_unfold by simp_all
  have loop': "translateRules ?dn (t_Name t) (templateSpec (t_Deployment ?P)) rs1
                 = (None, sp4, rs')"
    using loop e by (simp add: clientPrepared_name deleteRevision_fields)
  have dep1: "t_Deployment t1 = set_templateSpec sp4 (t_Deployment ?P)"
    using t1 by simp
  have P: "?P = t\<lparr>t_Rules := rs1, t_Deployment := t_Deployment ?P\<rparr>"
    using clientPrepared_only_deployment [of ?tB] by simp
  have t1': "t1 = t\<lparr>t_Deployment := t_Deployment t1, t_Rules := rs'\<rparr>"
    unfolding dep1 by (subst t1, subst P) simp
  have meta: "d_ObjectMeta (t_Deployment t1) = d_ObjectMeta (t_Deployment ?P)"
    using t1 by (simp add: deployment_setters)
  have name1: "om_Name (d_ObjectMeta (t_Deployment t1)) = ?dn"
    using meta by (simp add: clientPrepared_name deleteRevision_fields)
  have names1: "map c_Name (ps_Containers (templateSpec (t_Deployment t1)))
                  = map c_Name (ps_Containers (templateSpec ?D))"
  proof -
    have "templateSpec (t_Deployment t1) = sp4" using t1 by (simp add: template_setters)
    moreover have "map c_Name (ps_Containers sp4)
                     = map c_Name (ps_Containers (templateSpec (t_Deployment ?P)))"
      using translateRules_names [of ?dn "t_Name t" "templateSpec (t_Deployment ?P)" rs1] loop'
      by simp
    ultimately show ?thesis by (simp add: clientPrepared_names deleteRevision_fields)
  qed
  have stamp: "om_Annotations (d_ObjectMeta (t_Deployment t1)) oktetoDeploymentAnnotation
                 = Some (Json ?B)"
    using meta clientPrepared_manifest [of ?tB] caller by (simp add: storedOriginal_def)
  have restored: "\<And>u. t_Deployment u = t_Deployment t1 \<Longrightarrow>
      resolveContainers ?dn (templateSpec (t_Deployment t1)) (t_Rules u) = (None, rules) \<Longrightarrow>
      translate staa env u c isOktetoNamespace
        = clientTranslation (u\<lparr>t_Rules := rules, t_Deployment := ?B\<rparr>)" for rules
    using translate_stamped [OF client, where d = ?B and staa = staa] stamp name1
    by (simp add: deleteRevision_storedOriginal)
  have again: "clientTranslation (t\<lparr>t_Rules := rules, t_Deployment := ?B\<rparr>)
                 = clientTranslation (t\<lparr>t_Rules := rules, t_Deployment := deleteRevision ?D\<rparr>)"
    for rules
    using clientTranslation_status [of "t\<lparr>t_Rules := rules, t_Deployment := deleteRevision ?D\<rparr>"]
    by (simp add: storedOriginal_def)
  have second: "translate staa env (t\<lparr>t_Deployment := t_Deployment t1\<rparr>) c isOktetoNamespace
                  = (None, t1)"
  proof -
    have "resolveContainers ?dn (templateSpec (t_Deployment t1)) (t_Rules t) = (None, rs1)"
      using resolveContainers_names [OF names1] res by simp
    then have "translate staa env (t\<lparr>t_Deployment := t_Deployment t1\<rparr>) c isOktetoNamespace
                 = clientTranslation (t\<lparr>t_Rules := rs1, t_Deployment := ?B\<rparr>)"
      using restored [of "t\<lparr>t_Deployment := t_Deployment t1\<rparr>" rs1] by simp
    then show ?thesis using again [of rs1] pass1 by simp
  qed
  have third: "translate staa env t1 c isOktetoNamespace = (None, t1)"
  proof -
    have "list_all (resolvedIn (templateSpec ?D)) rs1"
      using resolveContainers_resolved [OF res] .
    moreover have "map r_Container rs' = map r_Container rs1"
      using translateRules_containers [OF loop'] .
    ultimately have "list_all (resolvedIn (templateSpec (t_Deployment t1))) rs'"
      using list_all_resolvedIn_cong [OF names1, of rs' rs1] by simp
    then have "resolveContainers ?dn (templateSpec (t_Deployment t1)) rs' = (None, rs')"
      by (rule resolveContainers_fixed)
    moreover have "t_Rules t1 = rs'" "t_Deployment t1 = t_Deployment t1"
      using t1 by simp_all
    ultimately have "translate staa env t1 c isOktetoNamespace
                      = clientTranslation (t1\<lparr>t_Rules := rs', t_Deployment := ?B\<rparr>)"
      using restored [of t1 rs'] by simp
    also have "t1\<lparr>t_Rules := rs', t_Deployment := ?B\<rparr> = t\<lparr>t_Rules := rs', t_Deployment := ?B\<rparr>"
      by (subst t1') simp
    also have "clientTranslation (t\<lparr>t_Rules := rs', t_Deployment := ?B\<rparr>)
                 = clientTranslation (?tB\<lparr>t_Rules := rs'\<rparr>)"
      using again [of rs'] by (simp add: rules_deployment_swap)
    also have "\<dots> = (None, t1)"
      unfolding clientTranslation_unfold clientPrepared_rules
      using translateRules_again [OF loop'] t1
      by (simp add: clientPrepared_name deleteRevision_fields)
    finally show ?thesis .
  qed
  show ?thesis using stamp second third by simp
qed

lemma demo_translates:
  "fst (translate noTranslationAnnotation [] demoTranslation False False) = None"
  by code_simp

theorem translate_idempotent_witness:
  "fst (translate noTranslationAnnotation [] demoTranslation False False) = None
   \<and> translate noTranslationAnnotation []
       (demoTranslation\<lparr>t_Deployment :=
          t_Deployment (snd (translate noTranslationAnnotation [] demoTranslation False False))\<rparr>)
       False False
     = translate noTranslationAnnotation [] demoTranslation False False
   \<and> translate noTranslationAnnotation []
       (snd (translate noTranslationAnnotation [] demoTranslation False False)) False False
     = translate noTranslationAnnotation [] demoTranslation False False"
proof -
  let ?t1 = "snd (translate noTranslationAnnotation [] demoTranslation False False)"
  have client: "\<not> (False \<and> False \<and> ([]::string) = [])" by simp
  have untranslated:
    "om_Annotations (d_ObjectMeta (t_Deployment demoTranslation)) oktetoDeploymentAnnotation
       = None"
    by (simp add: demoTranslation_def demoDeployment_def oktetoDeploymentAnnotation_def
        revisionAnnotation_def)
  have caller: "t_Annotations demoTranslation oktetoDeploymentAnnotation = None"
    by (simp add: demoTranslation_def oktetoDeploymentAnnotation_def)
  have first: "translate noTranslationAnnotation [] demoTranslation False False = (None, ?t1)"
    using demo_translates by (simp add: prod_eq_iff)
  note th = translate_idempotent [OF client untranslated caller first]
  have second: "translate noTranslationAnnotation []
      (demoTranslation\<lparr>t_Deployment := t_Deployment ?t1\<rparr>) False False = (None, ?t1)"
    using th by blast
  have third: "translate noTranslationAnnotation [] ?t1 False False = (None, ?t1)"
    using th by blast
  show ?thesis
    unfolding second third
    by (intro conjI) (rule demo_translates, rule first [symmetric], rule first [symmetric])
qed

subsection \<open>What a translation changes of the rules (C9)\<close>









end
